theory Spec2Isabelle
  imports Main "HOL-Library.AList"
begin

section \<open>Python values, dictionaries and exceptions\<close>

text \<open>
  The handlers of \<^verbatim>\<open>neon_speech/__main__.py\<close> pass around JSON-like Python values:
  message payloads, routing contexts, configuration, transcript lists. A number stands
  for an int or a float (the readings of \<^verbatim>\<open>time.time()\<close> are only stored, never
  computed with). A dictionary is an association list in insertion order, its keys
  strings.
\<close>

datatype pyval =
    PNone
  | PBool bool
  | PNum int
  | PStr string
  | PList "pyval list"
  | PDict "(string \<times> pyval) list"

type_synonym dict = "(string \<times> pyval) list"

text \<open>Python truthiness, as \<^verbatim>\<open>if x\<close>, \<^verbatim>\<open>not x\<close> and \<^verbatim>\<open>x or y\<close> read it.\<close>

fun truthy :: "pyval \<Rightarrow> bool" where
  "truthy PNone = False"
| "truthy (PBool b) = b"
| "truthy (PNum n) = (n \<noteq> 0)"
| "truthy (PStr s) = (s \<noteq> [])"
| "truthy (PList xs) = (xs \<noteq> [])"
| "truthy (PDict d) = (d \<noteq> [])"

definition py_or :: "pyval \<Rightarrow> pyval \<Rightarrow> pyval" where
  "py_or x y = (if truthy x then x else y)"

text \<open>
  The exceptions the code raises or tells apart. \<open>OtherError\<close> is any other subclass
  of \<^verbatim>\<open>Exception\<close> raised by a collaborator, with its description. Exceptions outside
  \<^verbatim>\<open>Exception\<close> (\<^verbatim>\<open>KeyboardInterrupt\<close>, \<^verbatim>\<open>SystemExit\<close>) are not modelled.
\<close>

datatype exn =
    EOFError
  | KeyError string
  | TypeError string
  | IndexError string
  | AttributeError string
  | OtherError string

text \<open>\<^verbatim>\<open>d.get(k)\<close>, \<^verbatim>\<open>d.get(k, v)\<close>, \<^verbatim>\<open>k in d\<close>, \<^verbatim>\<open>d[k]\<close>, \<^verbatim>\<open>d[k] = v\<close>,
  \<^verbatim>\<open>d.pop(k)\<close> and \<^verbatim>\<open>d.pop(k, v)\<close> on a dictionary.\<close>

definition dict_get :: "dict \<Rightarrow> string \<Rightarrow> pyval" where
  "dict_get d k = (case map_of d k of None \<Rightarrow> PNone | Some v \<Rightarrow> v)"

definition dict_get_default :: "dict \<Rightarrow> string \<Rightarrow> pyval \<Rightarrow> pyval" where
  "dict_get_default d k v = (case map_of d k of None \<Rightarrow> v | Some w \<Rightarrow> w)"

definition dict_contains :: "dict \<Rightarrow> string \<Rightarrow> bool" where
  "dict_contains d k = (case map_of d k of None \<Rightarrow> False | Some v \<Rightarrow> True)"

definition dict_item :: "dict \<Rightarrow> string \<Rightarrow> exn + pyval" where
  "dict_item d k = (case map_of d k of None \<Rightarrow> Inl (KeyError k) | Some v \<Rightarrow> Inr v)"

definition dict_set :: "dict \<Rightarrow> string \<Rightarrow> pyval \<Rightarrow> dict" where
  "dict_set d k v = AList.update k v d"

definition dict_pop :: "dict \<Rightarrow> string \<Rightarrow> exn + (pyval \<times> dict)" where
  "dict_pop d k =
     (case map_of d k of
        None \<Rightarrow> Inl (KeyError k)
      | Some v \<Rightarrow> Inr (v, AList.delete k d))"

definition dict_pop_default :: "dict \<Rightarrow> string \<Rightarrow> pyval \<Rightarrow> pyval \<times> dict" where
  "dict_pop_default d k v =
     (case map_of d k of
        None \<Rightarrow> (v, d)
      | Some w \<Rightarrow> (w, AList.delete k d))"

text \<open>
  The same operations on a value that need not be a dictionary: \<^verbatim>\<open>x.get(k)\<close> raises
  AttributeError on anything that has no \<^verbatim>\<open>get\<close>, \<^verbatim>\<open>x[k]\<close> with a string key raises
  TypeError on a non-mapping, and \<^verbatim>\<open>x[0]\<close> reads the first element of a list or
  string, raising IndexError when it is empty, KeyError on a dictionary (whose keys are
  strings) and TypeError elsewhere.
\<close>

definition py_get :: "pyval \<Rightarrow> string \<Rightarrow> exn + pyval" where
  "py_get x k =
     (case x of
        PDict d \<Rightarrow> Inr (dict_get d k)
      | _ \<Rightarrow> Inl (AttributeError ''get''))"

definition py_get_default :: "pyval \<Rightarrow> string \<Rightarrow> pyval \<Rightarrow> exn + pyval" where
  "py_get_default x k v =
     (case x of
        PDict d \<Rightarrow> Inr (dict_get_default d k v)
      | _ \<Rightarrow> Inl (AttributeError ''get''))"

definition py_item :: "pyval \<Rightarrow> string \<Rightarrow> exn + pyval" where
  "py_item x k =
     (case x of
        PDict d \<Rightarrow> dict_item d k
      | _ \<Rightarrow> Inl (TypeError ''not subscriptable by a string''))"

fun py_index0 :: "pyval \<Rightarrow> exn + pyval" where
  "py_index0 (PList []) = Inl (IndexError ''list index out of range'')"
| "py_index0 (PList (x # xs)) = Inr x"
| "py_index0 (PStr []) = Inl (IndexError ''string index out of range'')"
| "py_index0 (PStr (c # cs)) = Inr (PStr [c])"
| "py_index0 (PDict d) = Inl (KeyError ''0'')"
| "py_index0 PNone = Inl (TypeError ''not subscriptable'')"
| "py_index0 (PBool b) = Inl (TypeError ''not subscriptable'')"
| "py_index0 (PNum n) = Inl (TypeError ''not subscriptable'')"

section \<open>Messages, audio and the trace of effects\<close>

text \<open>A bus message: its type, its data and its context.\<close>

record message =
  msg_type :: pyval
  msg_data :: dict
  msg_context :: dict

text \<open>\<^verbatim>\<open>Message(msg_type, data, context)\<close> with a literal type; an omitted context is
  the empty dictionary.\<close>

definition Message :: "string \<Rightarrow> dict \<Rightarrow> dict \<Rightarrow> message" where
  "Message t d c = \<lparr>msg_type = PStr t, msg_data = d, msg_context = c\<rparr>"

text \<open>What \<^verbatim>\<open>AudioSegment.from_file\<close> decodes, and the \<^verbatim>\<open>AudioData\<close> built from it.\<close>

record segment =
  raw_data :: string
  frame_rate :: int
  seg_sample_width :: int

record audio_data =
  frame_data :: string
  sample_rate :: int
  sample_width :: int

datatype level = DEBUG | INFO | WARNING | ERROR

text \<open>A log record keeps the pieces of its text: literal parts and the values,
  exceptions or messages formatted into it.\<close>

datatype logarg = LStr string | LVal pyval | LExn exn | LMsg message

text \<open>
  Every effect on a collaborator is an event, appended to the trace when the call is
  made (also when the call then raises):
  \<^item> \<open>Emit m\<close>: \<^verbatim>\<open>bus.emit(m)\<close>;
  \<^item> \<open>WaitForResponse m t\<close>: \<^verbatim>\<open>bus.wait_for_response(m, timeout=t)\<close>, which sends
    \<open>m\<close> once and waits;
  \<^item> \<open>Log l xs\<close>: \<^verbatim>\<open>LOG.debug/info/warning/error\<close>;
  \<^item> \<open>LoopMute\<close>, \<open>LoopUnmute\<close>: \<^verbatim>\<open>loop.mute()\<close>, \<^verbatim>\<open>loop.unmute()\<close>;
  \<^item> \<open>Clock\<close>: \<^verbatim>\<open>time.time()\<close>;
  \<^item> \<open>FromFile f\<close>: \<^verbatim>\<open>AudioSegment.from_file(f)\<close>, the decoding of the audio;
  \<^item> \<open>GetAudioFileStream f\<close>: \<^verbatim>\<open>get_audio_file_stream(f)\<close>;
  \<^item> \<open>LockAcquire\<close>, \<open>LockRelease\<close>: entering and leaving \<^verbatim>\<open>with lock\<close>;
  \<^item> \<open>StreamStart l\<close>, \<open>StreamData d\<close>, \<open>StreamStop\<close>: the calls on \<^verbatim>\<open>API_STT\<close>;
    \<open>StreamRead n\<close>: \<^verbatim>\<open>audio_stream.read(n)\<close>;
  \<^item> \<open>Transcribe a l\<close>: \<^verbatim>\<open>loop.consumer.transcribe(a, l)\<close>;
  \<^item> \<open>GetContext a\<close>: \<^verbatim>\<open>audio_consumers.get_context(a)\<close>, the audio-context
    extractor;
  \<^item> \<open>UpdateProfileForNick\<close>, \<open>GetProfile\<close>, \<open>GetNickProfiles\<close>: the calls on
    \<^verbatim>\<open>loop.consumer.chat_user_database\<close>.
\<close>

datatype event =
    Emit message
  | WaitForResponse message nat
  | Log level "logarg list"
  | LoopMute
  | LoopUnmute
  | Clock
  | FromFile pyval
  | GetAudioFileStream pyval
  | LockAcquire
  | LockRelease
  | StreamStart pyval
  | StreamRead nat
  | StreamData string
  | StreamStop
  | Transcribe audio_data pyval
  | GetContext audio_data
  | UpdateProfileForNick pyval
  | GetProfile pyval
  | GetNickProfiles pyval

section \<open>The collaborators\<close>

text \<open>
  The module's globals (\<^verbatim>\<open>config\<close>, \<^verbatim>\<open>API_STT\<close>) and everything it imports are
  parameters. A collaborator with state (the bus, the clock, the file system, the audio
  stream, the STT engines, the extractor, the chat user database) answers a call from
  the trace of all effects so far, so that the same call may answer differently each
  time; a call that may raise answers with a sum, \<open>Inl\<close> the exception.
  \<^verbatim>\<open>bus.emit\<close>, \<^verbatim>\<open>bus.wait_for_response\<close>, \<^verbatim>\<open>LOG\<close>, \<^verbatim>\<open>time.time\<close>,
  \<^verbatim>\<open>loop.mute\<close>, \<^verbatim>\<open>loop.unmute\<close> and the message constructors are taken to return.
  \<^item> \<open>api_stt\<close>: whether the global \<^verbatim>\<open>API_STT\<close> holds an engine (\<^verbatim>\<open>if API_STT\<close>);
  \<^item> \<open>wait_for_response\<close>: the reply, \<open>None\<close> when none came within the timeout;
  \<^item> \<open>reply_context\<close>: the context \<^verbatim>\<open>message.reply\<close> derives from the request's;
  \<^item> \<open>py_repr\<close>, \<open>py_str\<close>: \<^verbatim>\<open>repr(e)\<close> of an exception, \<^verbatim>\<open>str(x)\<close> of a value
    that is not a string;
  \<^item> \<open>merge_dict\<close>: \<^verbatim>\<open>ovos_utils.json_helper.merge_dict\<close>.
\<close>

record env =
  config :: pyval
  api_stt :: bool
  wait_for_response :: "event list \<Rightarrow> message \<Rightarrow> nat \<Rightarrow> message option"
  time_time :: "event list \<Rightarrow> pyval"
  reply_context :: "dict \<Rightarrow> dict"
  py_repr :: "exn \<Rightarrow> string"
  py_str :: "pyval \<Rightarrow> string"
  merge_dict :: "dict \<Rightarrow> pyval \<Rightarrow> exn + dict"
  isfile :: "event list \<Rightarrow> pyval \<Rightarrow> exn + bool"
  from_file :: "event list \<Rightarrow> pyval \<Rightarrow> exn + segment"
  AudioData :: "string \<Rightarrow> int \<Rightarrow> int \<Rightarrow> exn + audio_data"
  get_audio_file_stream :: "event list \<Rightarrow> pyval \<Rightarrow> exn + unit"
  stream_start :: "event list \<Rightarrow> pyval \<Rightarrow> exn + unit"
  stream_read :: "event list \<Rightarrow> nat \<Rightarrow> exn + string"
  stream_data :: "event list \<Rightarrow> string \<Rightarrow> exn + unit"
  stream_stop :: "event list \<Rightarrow> exn + pyval"
  transcribe :: "event list \<Rightarrow> audio_data \<Rightarrow> pyval \<Rightarrow> exn + pyval"
  get_context :: "event list \<Rightarrow> audio_data \<Rightarrow> exn + (audio_data \<times> pyval)"
  update_profile_for_nick :: "event list \<Rightarrow> pyval \<Rightarrow> exn + unit"
  get_profile :: "event list \<Rightarrow> pyval \<Rightarrow> exn + pyval"
  get_nick_profiles :: "event list \<Rightarrow> pyval \<Rightarrow> exn + pyval"

text \<open>\<^verbatim>\<open>message.reply(msg_type, data=d)\<close>: a message of that type and data.\<close>

definition reply :: "env \<Rightarrow> message \<Rightarrow> pyval \<Rightarrow> dict \<Rightarrow> message" where
  "reply env m t d =
     \<lparr>msg_type = t, msg_data = d, msg_context = reply_context env (msg_context m)\<rparr>"

text \<open>A value formatted into an f-string: a string as it is.\<close>

definition format_str :: "env \<Rightarrow> pyval \<Rightarrow> string" where
  "format_str env x = (case x of PStr s \<Rightarrow> s | _ \<Rightarrow> py_str env x)"

section \<open>The utterance publish protocol\<close>

text \<open>\<^verbatim>\<open>_emit_utterance_to_skills\<close> (lines 100-112). The result is the returned bool, or
  the exception raised.\<close>

definition emit_utterance_to_skills ::
  "env \<Rightarrow> message \<Rightarrow> event list \<Rightarrow> (exn + bool) \<times> event list" where
  "emit_utterance_to_skills env message_to_emit tr =
     (case dict_item (msg_context message_to_emit) ''ident'' of
        Inl e \<Rightarrow> (Inl e, tr)
      | Inr ident \<Rightarrow>
          (case wait_for_response env tr message_to_emit 10 of
             None \<Rightarrow>
               (Inr False,
                tr @ [WaitForResponse message_to_emit 10,
                      Log ERROR [LStr ''Skills didn't handle '', LVal ident, LStr ''!'']])
           | Some resp \<Rightarrow> (Inr True, tr @ [WaitForResponse message_to_emit 10])))"

text \<open>\<^verbatim>\<open>handle_utterance\<close> (lines 83-97); \<open>event\<close> is the dictionary the recognizer
  loop emits.\<close>

definition handle_utterance ::
  "env \<Rightarrow> dict \<Rightarrow> event list \<Rightarrow> (exn + unit) \<times> event list" where
  "handle_utterance env event tr =
     (case dict_item event ''utterances'' of
        Inl e \<Rightarrow> (Inl e, tr)
      | Inr utterances \<Rightarrow>
          let tr1 = tr @ [Log INFO [LStr ''Utterance: '', LVal utterances]] in
          (case dict_pop event ''raw_audio'' of
             Inl e \<Rightarrow> (Inl e, tr1)
           | Inr (raw_audio, event1) \<Rightarrow>
               let (timing, event2) = dict_pop_default event1 ''timing'' (PDict []);
                   context0 =
                     [(''client_name'', PStr ''mycroft_listener''),
                      (''source'', PStr ''audio''),
                      (''raw_audio'', raw_audio),
                      (''destination'', PList [PStr ''skills'']),
                      (''timing'', timing)]
               in
               (case (if dict_contains event2 ''data''
                      then (case merge_dict env context0 (dict_get event2 ''data'') of
                              Inl e \<Rightarrow> Inl e
                            | Inr c \<Rightarrow> Inr (c, AList.delete ''data'' event2))
                      else Inr (context0, event2)) of
                  Inl e \<Rightarrow> (Inl e, tr1)
                | Inr (context1, event3) \<Rightarrow>
                    let (context2, event4) =
                          (if dict_contains event3 ''ident''
                           then (dict_set context1 ''ident'' (dict_get event3 ''ident''),
                                 AList.delete ''ident'' event3)
                           else (context1, event3))
                    in
                    (case emit_utterance_to_skills env
                            (Message ''recognizer_loop:utterance'' event4 context2) tr1 of
                       (Inl e, tr2) \<Rightarrow> (Inl e, tr2)
                     | (Inr handled, tr2) \<Rightarrow> (Inr (), tr2)))))"

section \<open>Muting during audio output\<close>

text \<open>\<^verbatim>\<open>handle_audio_start\<close> (lines 196-199) and \<^verbatim>\<open>handle_audio_end\<close> (lines 202-207):
  \<^verbatim>\<open>config.get("listener").get("mute_during_output")\<close> guards the call on the loop.\<close>

definition handle_audio_start :: "env \<Rightarrow> event list \<Rightarrow> (exn + unit) \<times> event list" where
  "handle_audio_start env tr =
     (case py_get (config env) ''listener'' of
        Inl e \<Rightarrow> (Inl e, tr)
      | Inr listener \<Rightarrow>
          (case py_get listener ''mute_during_output'' of
             Inl e \<Rightarrow> (Inl e, tr)
           | Inr flag \<Rightarrow> if truthy flag then (Inr (), tr @ [LoopMute]) else (Inr (), tr)))"

definition handle_audio_end :: "env \<Rightarrow> event list \<Rightarrow> (exn + unit) \<times> event list" where
  "handle_audio_end env tr =
     (case py_get (config env) ''listener'' of
        Inl e \<Rightarrow> (Inl e, tr)
      | Inr listener \<Rightarrow>
          (case py_get listener ''mute_during_output'' of
             Inl e \<Rightarrow> (Inl e, tr)
           | Inr flag \<Rightarrow> if truthy flag then (Inr (), tr @ [LoopUnmute]) else (Inr (), tr)))"

section \<open>The STT dispatch coordinator\<close>

text \<open>
  The loop of \<^verbatim>\<open>_get_stt_from_file\<close> (lines 385-390): read a chunk of 1024, feed it to
  the engine, until either call raises EOFError; any other exception leaves the loop
  raised. The loop has no other exit, so it need not return: \<open>None\<close> is a run that
  never ends.
\<close>

partial_function (option) feed_loop ::
  "env \<Rightarrow> event list \<Rightarrow> ((exn + unit) \<times> event list) option" where
  "feed_loop env tr =
     (case stream_read env tr 1024 of
        Inl e \<Rightarrow>
          if e = EOFError then Some (Inr (), tr @ [StreamRead 1024])
          else Some (Inl e, tr @ [StreamRead 1024])
      | Inr chunk \<Rightarrow>
          (case stream_data env (tr @ [StreamRead 1024]) chunk of
             Inl e \<Rightarrow>
               if e = EOFError then Some (Inr (), tr @ [StreamRead 1024, StreamData chunk])
               else Some (Inl e, tr @ [StreamRead 1024, StreamData chunk])
           | Inr u \<Rightarrow> feed_loop env (tr @ [StreamRead 1024, StreamData chunk])))"

declare feed_loop.simps [code]

text \<open>The block \<^verbatim>\<open>with lock\<close> (lines 383-391): the lock is released on every way out,
  the result is what \<^verbatim>\<open>stream_stop\<close> returned.\<close>

definition stream_cycle ::
  "env \<Rightarrow> pyval \<Rightarrow> event list \<Rightarrow> ((exn + pyval) \<times> event list) option" where
  "stream_cycle env lang tr =
     (let tr1 = tr @ [LockAcquire] in
      case stream_start env tr1 lang of
        Inl e \<Rightarrow> Some (Inl e, tr1 @ [StreamStart lang, LockRelease])
      | Inr u \<Rightarrow>
          (case feed_loop env (tr1 @ [StreamStart lang]) of
             None \<Rightarrow> None
           | Some (Inl e, tr2) \<Rightarrow> Some (Inl e, tr2 @ [LockRelease])
           | Some (Inr v, tr2) \<Rightarrow>
               (case stream_stop env tr2 of
                  Inl e \<Rightarrow> Some (Inl e, tr2 @ [StreamStop, LockRelease])
                | Inr transcriptions \<Rightarrow>
                    Some (Inr transcriptions, tr2 @ [StreamStop, LockRelease]))))"

text \<open>\<^verbatim>\<open>_get_stt_from_file\<close> (lines 369-396). The callers of this module always pass
  \<open>lang\<close>, so the default of the signature never applies and is not a case here. The
  result is the returned triple, or the exception raised.\<close>

definition get_stt_from_file ::
  "env \<Rightarrow> pyval \<Rightarrow> pyval \<Rightarrow> event list
     \<Rightarrow> ((exn + audio_data \<times> pyval \<times> pyval) \<times> event list) option" where
  "get_stt_from_file env wav_file lang tr =
     (let tr1 = tr @ [FromFile wav_file] in
      case from_file env tr wav_file of
        Inl e \<Rightarrow> Some (Inl e, tr1)
      | Inr seg \<Rightarrow>
          (case AudioData env (raw_data seg) (frame_rate seg) (seg_sample_width seg) of
             Inl e \<Rightarrow> Some (Inl e, tr1)
           | Inr audio \<Rightarrow>
               (case (if api_stt env
                      then (case get_audio_file_stream env tr1 wav_file of
                              Inl e \<Rightarrow> Some (Inl e, tr1 @ [GetAudioFileStream wav_file])
                            | Inr u \<Rightarrow> stream_cycle env lang (tr1 @ [GetAudioFileStream wav_file]))
                      else (case transcribe env tr1 audio lang of
                              Inl e \<Rightarrow> Some (Inl e, tr1 @ [Transcribe audio lang])
                            | Inr ts \<Rightarrow> Some (Inr ts, tr1 @ [Transcribe audio lang]))) of
                  None \<Rightarrow> None
                | Some (Inl e, tr2) \<Rightarrow> Some (Inl e, tr2)
                | Some (Inr transcriptions, tr2) \<Rightarrow>
                    (case get_context env tr2 audio of
                       Inl e \<Rightarrow> Some (Inl e, tr2 @ [GetContext audio])
                     | Inr (audio', audio_context) \<Rightarrow>
                         Some (Inr (audio', audio_context, transcriptions),
                               tr2 @ [GetContext audio])))))"

section \<open>The file-based transcription API\<close>

text \<open>\<^verbatim>\<open>handle_get_stt\<close> (lines 304-323). Neither error reply is followed by a
  \<^verbatim>\<open>return\<close>; \<^verbatim>\<open>os.path.isfile\<close> is called outside the \<^verbatim>\<open>try\<close>.\<close>

definition handle_get_stt ::
  "env \<Rightarrow> message \<Rightarrow> event list \<Rightarrow> ((exn + unit) \<times> event list) option" where
  "handle_get_stt env message tr =
     (let wav_file_path = dict_get (msg_data message) ''audio_file'';
          lang = dict_get (msg_data message) ''lang'';
          ident = py_or (dict_get (msg_context message) ''ident'') (PStr ''neon.get_stt.response'');
          tr1 = (if \<not> truthy wav_file_path
                 then tr @ [Emit (reply env message ident
                                   [(''error'', PStr ''audio_file not specified!'')])]
                 else tr)
      in
      case isfile env tr1 wav_file_path of
        Inl e \<Rightarrow> Some (Inl e, tr1)
      | Inr found \<Rightarrow>
          let tr2 = (if \<not> found
                     then tr1 @ [Emit (reply env message ident
                                        [(''error'',
                                          PStr (format_str env wav_file_path @ '' Not found!''))])]
                     else tr1)
          in
          (case get_stt_from_file env wav_file_path lang tr2 of
             None \<Rightarrow> None
           | Some (Inr (audio, parser_data, transcriptions), tr3) \<Rightarrow>
               Some (Inr (),
                     tr3 @ [Emit (reply env message ident
                                    [(''parser_data'', parser_data),
                                     (''transcripts'', transcriptions)])])
           | Some (Inl e, tr3) \<Rightarrow>
               Some (Inr (),
                     tr3 @ [Log ERROR [LExn e],
                            Emit (reply env message ident
                                    [(''error'', PStr (py_repr env e))])])))"

text \<open>\<^verbatim>\<open>build_context\<close> (lines 332-347), the local function of
  \<^verbatim>\<open>handle_audio_input\<close>. \<^verbatim>\<open>"source" or "speech_api"\<close> is \<^verbatim>\<open>"source"\<close>; the default
  \<^verbatim>\<open>time.time()\<close> of the ident is evaluated whether it is used or not; and
  \<^verbatim>\<open>msg.context("klat_data")\<close> calls a dictionary, which raises TypeError, so the two
  assignments under the \<^verbatim>\<open>if\<close> never complete.\<close>

definition build_context :: "env \<Rightarrow> message \<Rightarrow> event list \<Rightarrow> (exn + dict) \<times> event list" where
  "build_context env msg tr =
     (let transcribed = time_time env tr;
          tr1 = tr @ [Clock];
          fresh = time_time env tr1;
          tr2 = tr1 @ [Clock];
          ctx =
            [(''client_name'', PStr ''mycroft_listener''),
             (''source'', dict_get (msg_context msg) ''source''),
             (''destination'', PList [PStr ''skills'']),
             (''audio_parser_data'', dict_get (msg_context msg) ''audio_parser_data''),
             (''client'', dict_get (msg_context msg) ''client''),
             (''neon_should_respond'', dict_get (msg_context msg) ''neon_should_respond''),
             (''username'', dict_get (msg_context msg) ''username''),
             (''timing'', PDict [(''start'', dict_get (msg_data msg) ''time''),
                                 (''transcribed'', transcribed)]),
             (''ident'', dict_get_default (msg_context msg) ''ident'' fresh)]
      in
      if truthy (dict_get (msg_context msg) ''klat_data'')
      then (Inl (TypeError ''dict object is not callable''), tr2)
      else (Inr ctx, tr2))"

text \<open>\<^verbatim>\<open>handle_audio_input\<close> (lines 326-366). The assignment to
  \<^verbatim>\<open>message.context["audio_parser_data"]\<close> changes the message that is later replied
  to, also in the \<^verbatim>\<open>except\<close> branch.\<close>

definition handle_audio_input ::
  "env \<Rightarrow> message \<Rightarrow> event list \<Rightarrow> ((exn + unit) \<times> event list) option" where
  "handle_audio_input env message tr =
     (let ident = py_or (dict_get (msg_context message) ''ident'')
                    (PStr ''neon.audio_input.response'');
          wav_file_path = dict_get (msg_data message) ''audio_file'';
          lang = dict_get (msg_data message) ''lang''
      in
      case get_stt_from_file env wav_file_path lang tr of
        None \<Rightarrow> None
      | Some (Inl e, tr1) \<Rightarrow>
          Some (Inr (),
                tr1 @ [Log ERROR [LExn e],
                       Emit (reply env message ident [(''error'', PStr (py_repr env e))])])
      | Some (Inr (audio, parser_data, transcriptions), tr1) \<Rightarrow>
          let message' = message\<lparr>msg_context :=
                           dict_set (msg_context message) ''audio_parser_data'' parser_data\<rparr>
          in
          (case build_context env message' tr1 of
             (Inl e, tr2) \<Rightarrow>
               Some (Inr (),
                     tr2 @ [Log ERROR [LExn e],
                            Emit (reply env message' ident [(''error'', PStr (py_repr env e))])])
           | (Inr context, tr2) \<Rightarrow>
               let data = [(''utterances'', transcriptions),
                           (''lang'', dict_get_default (msg_data message') ''lang'' (PStr ''en-us''))]
               in
               (case emit_utterance_to_skills env
                       (Message ''recognizer_loop:utterance'' data context) tr2 of
                  (Inl e, tr3) \<Rightarrow>
                    Some (Inr (),
                          tr3 @ [Log ERROR [LExn e],
                                 Emit (reply env message' ident
                                         [(''error'', PStr (py_repr env e))])])
                | (Inr handled, tr3) \<Rightarrow>
                    Some (Inr (),
                          tr3 @ [Emit (reply env message' ident
                                         [(''parser_data'', parser_data),
                                          (''transcripts'', transcriptions),
                                          (''skills_recv'', PBool handled)])]))))"

section \<open>The legacy klat transport\<close>

text \<open>
  \<^verbatim>\<open>handle_input_from_klat\<close> (lines 216-301) in three parts. The first (lines 220-241)
  reads the request and the chat user database, outside any \<^verbatim>\<open>try\<close> but for the
  lookup of the nick profiles, which is repeated with \<^verbatim>\<open>[nick]\<close> after a TypeError. Its
  locals are kept in a record.
\<close>

record klat_locals =
  loc_audio_file :: pyval
  loc_nick :: pyval
  loc_stt_language :: pyval
  loc_request_id :: string
  loc_nick_profiles :: pyval
  loc_mobile :: bool
  loc_client :: string
  loc_ident :: pyval

definition klat_request ::
  "env \<Rightarrow> message \<Rightarrow> event list \<Rightarrow> (exn + klat_locals) \<times> event list" where
  "klat_request env message tr =
     (let audio_file = dict_get (msg_data message) ''raw_audio'';
          nick = dict_get (msg_data message) ''user'';
          tr1 = tr @ [UpdateProfileForNick nick]
      in
      case update_profile_for_nick env tr nick of
        Inl e \<Rightarrow> (Inl e, tr1)
      | Inr u \<Rightarrow>
          let tr2 = tr1 @ [GetProfile nick] in
          (case get_profile env tr1 nick of
             Inl e \<Rightarrow> (Inl e, tr2)
           | Inr chat_user \<Rightarrow>
               (case py_item chat_user ''speech'' of
                  Inl e \<Rightarrow> (Inl e, tr2)
                | Inr speech \<Rightarrow>
                    (case py_get_default speech ''stt_language'' (PStr ''en'') of
                       Inl e \<Rightarrow> (Inl e, tr2)
                     | Inr stt_language \<Rightarrow>
                         let request_id =
                               ''sid-'' @ format_str env (dict_get (msg_data message) ''sid'')
                               @ ''-'' @ format_str env (dict_get (msg_data message) ''socketIdEncrypted'')
                               @ ''-'' @ format_str env nick
                               @ ''-'' @ format_str env (dict_get (msg_data message) ''nano'');
                             cid_nicks = dict_get (msg_data message) ''cid_nicks'';
                             tr3 = tr2 @ [GetNickProfiles cid_nicks]
                         in
                         (case (case get_nick_profiles env tr2 cid_nicks of
                                  Inr ps \<Rightarrow> (Inr ps, tr3)
                                | Inl (TypeError t) \<Rightarrow>
                                    (get_nick_profiles env tr3 (PList [nick]),
                                     tr3 @ [GetNickProfiles (PList [nick])])
                                | Inl e \<Rightarrow> (Inl e, tr3)) of
                            (Inl e, tr4) \<Rightarrow> (Inl e, tr4)
                          | (Inr nick_profiles, tr4) \<Rightarrow>
                              let mobile = (dict_get (msg_data message) ''nano'' = PStr ''mobile'');
                                  client =
                                    (if mobile then ''mobile''
                                     else if dict_get (msg_data message) ''nano'' = PStr ''true''
                                     then ''nano'' else ''klat'');
                                  ident = time_time env tr4
                              in
                              (Inr \<lparr>loc_audio_file = audio_file, loc_nick = nick,
                                    loc_stt_language = stt_language, loc_request_id = request_id,
                                    loc_nick_profiles = nick_profiles, loc_mobile = mobile,
                                    loc_client = client, loc_ident = ident\<rparr>,
                               tr4 @ [Clock, Log DEBUG [LVal audio_file]]))))))"

text \<open>
  The second part (lines 242-268) chooses the transcript list. \<open>None\<close> inside is the
  \<^verbatim>\<open>return\<close> of line 265; otherwise the pair is \<^verbatim>\<open>(audio_context, transcriptions)\<close>.
  Every exception of the \<^verbatim>\<open>try\<close> block, also that of \<^verbatim>\<open>transcriptions[0]\<close>, ends
  in the \<^verbatim>\<open>except\<close> branch, so no exception leaves this part.
\<close>

definition klat_transcriptions ::
  "env \<Rightarrow> message \<Rightarrow> klat_locals \<Rightarrow> event list
     \<Rightarrow> ((pyval \<times> pyval) option \<times> event list) option" where
  "klat_transcriptions env message loc tr =
     (if truthy (loc_audio_file loc) then
        (case get_stt_from_file env (loc_audio_file loc) (loc_stt_language loc) tr of
           None \<Rightarrow> None
         | Some (Inl x, tr1) \<Rightarrow>
             Some (Some (PNone, PList [dict_get (msg_data message) ''shout_text'']),
                   tr1 @ [Log ERROR [LExn x]])
         | Some (Inr (audio, audio_context, transcriptions), tr1) \<Rightarrow>
             if truthy (dict_get (msg_data message) ''need_transcription'') then
               (let tr2 = tr1 @ [Log DEBUG [LStr ''return stt to server: '', LVal transcriptions]] in
                case py_index0 transcriptions of
                  Inl x \<Rightarrow>
                    Some (Some (PNone, PList [dict_get (msg_data message) ''shout_text'']),
                          tr2 @ [Log ERROR [LExn x]])
                | Inr first \<Rightarrow>
                    Some (Some (audio_context, transcriptions),
                          tr2 @ [Emit (Message ''css.emit''
                                         [(''event'', PStr ''stt from mycroft''),
                                          (''data'', PList [first, PStr (loc_request_id loc)])]
                                         [])]))
             else Some (Some (audio_context, transcriptions), tr1))
      else if truthy (dict_get (msg_data message) ''need_transcription'') then
        Some (None,
              tr @ [Log ERROR [LStr ''Need transcription but no audio passed! '', LMsg message]])
      else
        Some (Some (PNone, PList [dict_get (msg_data message) ''shout_text'']), tr))"

text \<open>The third part (lines 270-301): the guard on the transcript list, then the
  utterance message and its publication. In the context literal \<^verbatim>\<open>transcriptions[0]\<close>
  is evaluated before \<^verbatim>\<open>time.time()\<close>.\<close>

definition klat_publish ::
  "env \<Rightarrow> message \<Rightarrow> klat_locals \<Rightarrow> pyval \<Rightarrow> pyval \<Rightarrow> event list
     \<Rightarrow> (exn + unit) \<times> event list" where
  "klat_publish env message loc audio_context transcriptions tr =
     (if \<not> truthy transcriptions
      then (Inr (), tr @ [Log WARNING [LStr ''Null Transcription!'']])
      else
        (case py_index0 transcriptions of
           Inl e \<Rightarrow> (Inl e, tr)
         | Inr first \<Rightarrow>
             let data = [(''utterances'', transcriptions),
                         (''lang'', loc_stt_language loc)];
                 context =
                   [(''client_name'', PStr ''mycroft_listener''),
                    (''source'', PStr ''klat''),
                    (''destination'', PList [PStr ''skills'']),
                    (''audio_parser_data'', audio_context),
                    (''raw_audio'', dict_get (msg_data message) ''raw_audio''),
                    (''mobile'', PBool (loc_mobile loc)),
                    (''client'', PStr (loc_client loc)),
                    (''klat_data'',
                       PDict [(''cid'', dict_get (msg_data message) ''cid''),
                              (''sid'', dict_get (msg_data message) ''sid''),
                              (''title'', dict_get (msg_data message) ''title''),
                              (''nano'', dict_get (msg_data message) ''nano''),
                              (''request_id'', PStr (loc_request_id loc))]),
                    (''neon_should_respond'', PBool False),
                    (''username'', loc_nick loc),
                    (''nick_profiles'', loc_nick_profiles loc),
                    (''cc_data'', PDict [(''speak_execute'', first),
                                         (''raw_utterance'', first)]),
                    (''timing'', PDict [(''start'', dict_get (msg_data message) ''time''),
                                        (''transcribed'', time_time env tr)]),
                    (''ident'', loc_ident loc)];
                 tr1 = tr @ [Clock, Log DEBUG [LStr ''Send server request to skills for processing'']]
             in
             (case emit_utterance_to_skills env
                     (Message ''recognizer_loop:utterance'' data context) tr1 of
                (Inl e, tr2) \<Rightarrow> (Inl e, tr2)
              | (Inr handled, tr2) \<Rightarrow> (Inr (), tr2))))"

definition handle_input_from_klat ::
  "env \<Rightarrow> message \<Rightarrow> event list \<Rightarrow> ((exn + unit) \<times> event list) option" where
  "handle_input_from_klat env message tr =
     (case klat_request env message tr of
        (Inl e, tr1) \<Rightarrow> Some (Inl e, tr1)
      | (Inr loc, tr1) \<Rightarrow>
          (case klat_transcriptions env message loc tr1 of
             None \<Rightarrow> None
           | Some (None, tr2) \<Rightarrow> Some (Inr (), tr2)
           | Some (Some (audio_context, transcriptions), tr2) \<Rightarrow>
               Some (klat_publish env message loc audio_context transcriptions tr2)))"

section \<open>Observations on a trace\<close>

text \<open>The messages a trace puts on the bus, in order: those of \<^verbatim>\<open>bus.emit\<close> and those
  of \<^verbatim>\<open>bus.wait_for_response\<close>.\<close>

fun sent :: "event \<Rightarrow> message list" where
  "sent (Emit m) = [m]"
| "sent (WaitForResponse m t) = [m]"
| "sent e = []"

definition outbound :: "event list \<Rightarrow> message list" where
  "outbound tr = concat (map sent tr)"

text \<open>The calls on the shared engine and its audio stream.\<close>

fun engine_event :: "event \<Rightarrow> bool" where
  "engine_event (StreamStart l) = True"
| "engine_event (StreamRead n) = True"
| "engine_event (StreamData d) = True"
| "engine_event StreamStop = True"
| "engine_event e = False"

text \<open>
  \<open>eof_after env n tr\<close>: the feed loop, entered at trace \<open>tr\<close>, runs \<open>n\<close> iterations in
  which both the read and the feed return, and in the next one either the read raises
  EOFError, or the read returns and the feed raises EOFError.
\<close>

fun eof_after :: "env \<Rightarrow> nat \<Rightarrow> event list \<Rightarrow> bool" where
  "eof_after env 0 tr =
     (case stream_read env tr 1024 of
        Inl e \<Rightarrow> e = EOFError
      | Inr chunk \<Rightarrow> stream_data env (tr @ [StreamRead 1024]) chunk = Inl EOFError)"
| "eof_after env (Suc n) tr =
     (case stream_read env tr 1024 of
        Inl e \<Rightarrow> False
      | Inr chunk \<Rightarrow>
          (case stream_data env (tr @ [StreamRead 1024]) chunk of
             Inl e \<Rightarrow> False
           | Inr u \<Rightarrow> eof_after env n (tr @ [StreamRead 1024, StreamData chunk])))"

section \<open>Sample collaborators and requests\<close>

text \<open>
  A concrete set of collaborators, at which the theorems below are instantiated: a batch
  engine that hears \<^verbatim>\<open>hello world\<close>, a file system holding only \<^verbatim>\<open>sample.wav\<close>, a
  bus on which nobody answers, a clock that counts the events so far, an audio stream
  of two chunks, and a chat user database that knows its users' language.
\<close>

fun sample_repr :: "exn \<Rightarrow> string" where
  "sample_repr EOFError = ''EOFError()''"
| "sample_repr (KeyError s) = ''KeyError('' @ s @ '')''"
| "sample_repr (TypeError s) = ''TypeError('' @ s @ '')''"
| "sample_repr (IndexError s) = ''IndexError('' @ s @ '')''"
| "sample_repr (AttributeError s) = ''AttributeError('' @ s @ '')''"
| "sample_repr (OtherError s) = s"

definition sample_env :: env where
  "sample_env =
     \<lparr>config = PDict [(''listener'', PDict [(''mute_during_output'', PBool True)])],
      api_stt = False,
      wait_for_response = (\<lambda>tr m t. None),
      time_time = (\<lambda>tr. PNum (int (length tr))),
      reply_context = (\<lambda>c. c),
      py_repr = sample_repr,
      py_str = (\<lambda>x. ''None''),
      merge_dict = (\<lambda>b d. Inr b),
      isfile = (\<lambda>tr f. Inr (f = PStr ''sample.wav'')),
      from_file = (\<lambda>tr f. if f = PStr ''sample.wav''
                     then Inr \<lparr>raw_data = ''RIFF'', frame_rate = 16000, seg_sample_width = 2\<rparr>
                     else Inl (OtherError ''FileNotFoundError()'')),
      AudioData = (\<lambda>r f w. Inr \<lparr>frame_data = r, sample_rate = f, sample_width = w\<rparr>),
      get_audio_file_stream = (\<lambda>tr f. Inr ()),
      stream_start = (\<lambda>tr l. Inr ()),
      stream_read = (\<lambda>tr n. if length (filter (\<lambda>e. e = StreamRead n) tr) < 2
                        then Inr ''chunk'' else Inl EOFError),
      stream_data = (\<lambda>tr d. Inr ()),
      stream_stop = (\<lambda>tr. Inr (PList [PStr ''hello world''])),
      transcribe = (\<lambda>tr a l. Inr (PList [PStr ''hello world''])),
      get_context = (\<lambda>tr a. Inr (a, PDict [(''confidence'', PNum 1)])),
      update_profile_for_nick = (\<lambda>tr n. Inr ()),
      get_profile = (\<lambda>tr n. Inr (PDict [(''speech'', PDict [(''stt_language'', PStr ''en'')])])),
      get_nick_profiles = (\<lambda>tr n. Inr (PDict []))\<rparr>"

text \<open>The same with a shared streaming engine; with a stream that never ends and an
  engine that raises EOFError at the second feed; with an extractor that raises; and with
  an engine that hears nothing.\<close>

definition streaming_env :: env where
  "streaming_env = sample_env\<lparr>api_stt := True\<rparr>"

definition eof_on_feed_env :: env where
  "eof_on_feed_env =
     streaming_env\<lparr>stream_read := (\<lambda>tr n. Inr ''chunk''),
                   stream_data := (\<lambda>tr d. if filter (\<lambda>e. e = StreamData d) tr = []
                                           then Inr () else Inl EOFError)\<rparr>"

definition failing_extractor_env :: env where
  "failing_extractor_env =
     sample_env\<lparr>get_context := (\<lambda>tr a. Inl (OtherError ''RuntimeError(extractor failed)''))\<rparr>"

definition silent_env :: env where
  "silent_env = sample_env\<lparr>transcribe := (\<lambda>tr a l. Inr (PList []))\<rparr>"

text \<open>What \<^verbatim>\<open>sample.wav\<close> decodes to.\<close>

definition sample_audio :: audio_data where
  "sample_audio = \<lparr>frame_data = ''RIFF'', sample_rate = 16000, sample_width = 2\<rparr>"

text \<open>An utterance message with an ident; get-stt requests for a file that does not
  exist and for one that does, the latter without \<^verbatim>\<open>lang\<close>; an audio-input request
  with a given \<^verbatim>\<open>klat_data\<close> in its context, and the utterance published for it.\<close>

definition hello_message :: message where
  "hello_message =
     Message ''recognizer_loop:utterance'' [(''utterances'', PList [PStr ''hello''])]
       [(''source'', PStr ''audio''), (''ident'', PNum 7)]"

definition missing_request :: message where
  "missing_request =
     \<lparr>msg_type = PStr ''neon.get_stt'', msg_data = [(''audio_file'', PStr ''missing.wav'')],
      msg_context = []\<rparr>"

definition nolang_request :: message where
  "nolang_request =
     \<lparr>msg_type = PStr ''neon.get_stt'', msg_data = [(''audio_file'', PStr ''sample.wav'')],
      msg_context = []\<rparr>"

definition klat_input_request :: "pyval \<Rightarrow> message" where
  "klat_input_request k =
     \<lparr>msg_type = PStr ''neon.audio_input'',
      msg_data = [(''audio_file'', PStr ''sample.wav''), (''lang'', PStr ''en-us'')],
      msg_context = [(''klat_data'', k)]\<rparr>"

definition published_utterance :: message where
  "published_utterance =
     Message ''recognizer_loop:utterance''
       [(''utterances'', PList [PStr ''hello world'']), (''lang'', PStr ''en-us'')]
       [(''client_name'', PStr ''mycroft_listener''), (''source'', PNone),
        (''destination'', PList [PStr ''skills'']),
        (''audio_parser_data'', PDict [(''confidence'', PNum 1)]),
        (''client'', PNone), (''neon_should_respond'', PNone), (''username'', PNone),
        (''timing'', PDict [(''start'', PNone), (''transcribed'', PNum 3)]),
        (''ident'', PNum 4)]"

text \<open>Klat requests: with audio; with neither audio nor text; with neither, asking for
  a transcription. Then the locals and the trace of the first part of the handler on
  them, by the audio file.\<close>

definition klat_audio_request :: message where
  "klat_audio_request =
     \<lparr>msg_type = PStr ''recognizer_loop:klat_utterance'',
      msg_data = [(''raw_audio'', PStr ''sample.wav''), (''user'', PStr ''alice''),
                  (''sid'', PStr ''s1''), (''socketIdEncrypted'', PStr ''x''),
                  (''nano'', PStr ''false''), (''cid_nicks'', PList [PStr ''alice''])],
      msg_context = []\<rparr>"

definition klat_empty_request :: message where
  "klat_empty_request =
     \<lparr>msg_type = PStr ''recognizer_loop:klat_utterance'',
      msg_data = [(''user'', PStr ''alice''), (''sid'', PStr ''s1''),
                  (''socketIdEncrypted'', PStr ''x''), (''nano'', PStr ''false''),
                  (''cid_nicks'', PList [PStr ''alice''])],
      msg_context = []\<rparr>"

definition klat_untranscribable_request :: message where
  "klat_untranscribable_request =
     \<lparr>msg_type = PStr ''recognizer_loop:klat_utterance'',
      msg_data = [(''user'', PStr ''alice''), (''sid'', PStr ''s1''),
                  (''socketIdEncrypted'', PStr ''x''), (''nano'', PStr ''false''),
                  (''cid_nicks'', PList [PStr ''alice'']), (''need_transcription'', PBool True)],
      msg_context = []\<rparr>"

definition klat_sample_locals :: "pyval \<Rightarrow> klat_locals" where
  "klat_sample_locals f =
     \<lparr>loc_audio_file = f, loc_nick = PStr ''alice'', loc_stt_language = PStr ''en'',
      loc_request_id = ''sid-s1-x-alice-false'', loc_nick_profiles = PDict [],
      loc_mobile = False, loc_client = ''klat'', loc_ident = PNum 3\<rparr>"

definition klat_sample_trace :: "pyval \<Rightarrow> event list" where
  "klat_sample_trace f =
     [UpdateProfileForNick (PStr ''alice''), GetProfile (PStr ''alice''),
      GetNickProfiles (PList [PStr ''alice'']), Clock, Log DEBUG [LVal f]]"

section \<open>Dictionary and trace lemmas\<close>

lemma outbound_append: "outbound (xs @ ys) = outbound xs @ outbound ys"
  by (simp add: outbound_def)

lemma map_of_delete: "map_of (AList.delete k d) k' = (if k' = k then None else map_of d k')"
  by (simp add: AList.delete_conv')

lemma dict_contains_delete:
  "dict_contains (AList.delete k d) k' = (k' \<noteq> k \<and> dict_contains d k')"
  by (simp add: dict_contains_def AList.delete_conv')

lemma dict_get_set: "dict_get (dict_set d k v) k' = (if k' = k then v else dict_get d k')"
  by (simp add: dict_get_def dict_set_def AList.update_conv')

lemma falsy_index0: "\<not> truthy ts \<Longrightarrow> \<exists>e. py_index0 ts = Inl e"
  by (cases ts) auto

section \<open>The utterance publish protocol: properties\<close>

text \<open>
  Claim C4, as amended. For every call of \<^verbatim>\<open>_emit_utterance_to_skills\<close> whose message
  context holds an \<^verbatim>\<open>ident\<close>, the call does not raise and puts exactly one message on
  the bus, the one it was given, by one \<^verbatim>\<open>wait_for_response\<close> with timeout 10. When no
  reply arrives in that time it logs once at error severity and returns False, sending
  nothing again; when a reply arrives it returns True and logs nothing.
\<close>

theorem emit_utterance_with_ident:
  assumes "map_of (msg_context m) ''ident'' = Some i"
  shows "emit_utterance_to_skills env m tr =
           (Inr (wait_for_response env tr m 10 \<noteq> None),
            tr @ [WaitForResponse m 10] @
              (if wait_for_response env tr m 10 = None
               then [Log ERROR [LStr ''Skills didn't handle '', LVal i, LStr ''!'']]
               else []))
         \<and> outbound (snd (emit_utterance_to_skills env m tr)) = outbound tr @ [m]"
  using assms
  by (cases "wait_for_response env tr m 10")
     (simp_all add: emit_utterance_to_skills_def dict_item_def outbound_def)

text \<open>The amended claim at a message with ident 7: on a bus where nobody answers, and
  on one that answers.\<close>

theorem emit_utterance_with_ident_witness:
  "map_of (msg_context hello_message) ''ident'' = Some (PNum 7)
   \<and> emit_utterance_to_skills sample_env hello_message [] =
       (Inr False,
        [WaitForResponse hello_message 10,
         Log ERROR [LStr ''Skills didn't handle '', LVal (PNum 7), LStr ''!'']])
   \<and> emit_utterance_to_skills (sample_env\<lparr>wait_for_response := (\<lambda>tr m t. Some m)\<rparr>)
        hello_message [] =
       (Inr True, [WaitForResponse hello_message 10])"
proof -
  have h: "map_of (msg_context hello_message) ''ident'' = Some (PNum 7)"
    by (simp add: hello_message_def Message_def)
  show ?thesis
    using h emit_utterance_with_ident [OF h, of sample_env "[]"]
      emit_utterance_with_ident [OF h, of "sample_env\<lparr>wait_for_response := (\<lambda>tr m t. Some m)\<rparr>" "[]"]
    by (simp add: sample_env_def)
qed

text \<open>
  Claim C4 as stated speaks of every call. A message whose context has no \<^verbatim>\<open>ident\<close>
  is a call that raises KeyError at line 107, before anything is sent: no message is
  emitted and no bool is returned.
\<close>

theorem emit_utterance_without_ident_raises:
  "emit_utterance_to_skills sample_env
     (Message ''recognizer_loop:utterance'' [(''utterances'', PList [PStr ''hello''])]
        [(''source'', PStr ''audio'')]) []
   = (Inl (KeyError ''ident''), [])"
  by (simp add: emit_utterance_to_skills_def dict_item_def Message_def)

text \<open>
  Claim C5 at the inputs where the code departs from it. A live utterance event with
  \<^verbatim>\<open>utterances\<close> and \<^verbatim>\<open>raw_audio\<close> but neither \<^verbatim>\<open>ident\<close> nor \<^verbatim>\<open>data\<close> reaches the
  publish protocol with a context that has no ident: \<^verbatim>\<open>handle_utterance\<close> generates
  none, \<^verbatim>\<open>_emit_utterance_to_skills\<close> raises KeyError, and nothing but the log line
  happens. The claim says an ident is generated and the call does not fail.
\<close>

theorem handle_utterance_without_ident:
  assumes "dict_item event ''utterances'' = Inr u"
    and "dict_contains event ''raw_audio''"
    and "\<not> dict_contains event ''data''"
    and "\<not> dict_contains event ''ident''"
  shows "handle_utterance env event tr =
           (Inl (KeyError ''ident''), tr @ [Log INFO [LStr ''Utterance: '', LVal u]])"
proof -
  obtain r where r: "map_of event ''raw_audio'' = Some r"
    using assms(2) by (auto simp: dict_contains_def split: option.splits)
  let ?e1 = "AList.delete ''raw_audio'' event"
  obtain t e2 where p: "dict_pop_default ?e1 ''timing'' (PDict []) = (t, e2)"
    by (cases "dict_pop_default ?e1 ''timing'' (PDict [])")
  have e2: "e2 = ?e1 \<or> e2 = AList.delete ''timing'' ?e1"
    using p by (auto simp: dict_pop_default_def split: option.splits)
  have nd: "\<not> dict_contains e2 ''data''" and ni: "\<not> dict_contains e2 ''ident''"
    using e2 assms(3,4) by (auto simp: dict_contains_delete)
  show ?thesis
    using assms(1) r p nd ni
    by (simp add: handle_utterance_def dict_pop_def emit_utterance_to_skills_def
        dict_item_def Message_def)
qed

text \<open>The event \<^verbatim>\<open>{"utterances": ["hello"], "raw_audio": "RIFF"}\<close>.\<close>

theorem handle_utterance_without_ident_witness:
  "handle_utterance sample_env
     [(''utterances'', PList [PStr ''hello'']), (''raw_audio'', PStr ''RIFF'')] []
   = (Inl (KeyError ''ident''), [Log INFO [LStr ''Utterance: '', LVal (PList [PStr ''hello''])]])"
  using handle_utterance_without_ident
    [of "[(''utterances'', PList [PStr ''hello'']), (''raw_audio'', PStr ''RIFF'')]"
        "PList [PStr ''hello'']" sample_env "[]"]
  by (simp add: dict_item_def dict_contains_def)

section \<open>Muting during audio output: properties\<close>

text \<open>
  Claim C7. With a configuration whose \<^verbatim>\<open>listener\<close> section is a dictionary: when
  \<^verbatim>\<open>mute_during_output\<close> is off (false or absent), neither handler calls the loop, so
  neither \<^verbatim>\<open>mute\<close> nor \<^verbatim>\<open>unmute\<close> is invoked and the trace is unchanged; when it is
  on, audio-output-start calls \<^verbatim>\<open>mute\<close> and audio-output-end calls \<^verbatim>\<open>unmute\<close>,
  exactly once each.
\<close>

theorem mute_during_output:
  assumes "config env = PDict cfg" and "dict_get cfg ''listener'' = PDict l"
  shows "handle_audio_start env tr =
           (Inr (), if truthy (dict_get l ''mute_during_output'') then tr @ [LoopMute] else tr)
       \<and> handle_audio_end env tr =
           (Inr (), if truthy (dict_get l ''mute_during_output'') then tr @ [LoopUnmute] else tr)"
  using assms by (simp add: handle_audio_start_def handle_audio_end_def py_get_def)

text \<open>The flag on, then the flag absent.\<close>

theorem mute_during_output_witness:
  "config sample_env = PDict [(''listener'', PDict [(''mute_during_output'', PBool True)])]
   \<and> handle_audio_start sample_env [] = (Inr (), [LoopMute])
   \<and> handle_audio_end sample_env [LoopMute] = (Inr (), [LoopMute, LoopUnmute])
   \<and> handle_audio_start (sample_env\<lparr>config := PDict [(''listener'', PDict [])]\<rparr>) []
       = (Inr (), [])
   \<and> handle_audio_end (sample_env\<lparr>config := PDict [(''listener'', PDict [])]\<rparr>) [LoopMute]
       = (Inr (), [LoopMute])"
proof -
  let ?off = "sample_env\<lparr>config := PDict [(''listener'', PDict [])]\<rparr>"
  have on: "config sample_env = PDict [(''listener'', PDict [(''mute_during_output'', PBool True)])]"
    by (simp add: sample_env_def)
  have off: "config ?off = PDict [(''listener'', PDict [])]"
    by simp
  have l1: "dict_get [(''listener'', PDict [(''mute_during_output'', PBool True)])] ''listener''
              = PDict [(''mute_during_output'', PBool True)]"
    by (simp add: dict_get_def)
  have l2: "dict_get [(''listener'', PDict [])] ''listener'' = PDict []"
    by (simp add: dict_get_def)
  show ?thesis
    using on mute_during_output [OF on l1, of "[]"] mute_during_output [OF on l1, of "[LoopMute]"]
      mute_during_output [OF off l2, of "[]"] mute_during_output [OF off l2, of "[LoopMute]"]
    by (simp add: dict_get_def)
qed

section \<open>The feed loop and the lock\<close>

text \<open>Whenever the loop returns, it has only called the stream and the engine, and put
  nothing on the bus. The loop is a least fixed point, so both are shown by fixed-point
  induction.\<close>

lemma feed_loop_engine_events:
  assumes "feed_loop env tr = Some y"
  shows "\<exists>evs. snd y = tr @ evs \<and> list_all engine_event evs"
  using assms
proof (rule feed_loop.raw_induct [rotated 1])
  fix feed env tr y
  assume ih: "\<And>env tr y. feed env tr = Some y
                \<Longrightarrow> \<exists>evs. snd y = tr @ evs \<and> list_all engine_event evs"
    and body: "(case stream_read env tr 1024 of
        Inl e \<Rightarrow>
          if e = EOFError then Some (Inr (), tr @ [StreamRead 1024])
          else Some (Inl e, tr @ [StreamRead 1024])
      | Inr chunk \<Rightarrow>
          (case stream_data env (tr @ [StreamRead 1024]) chunk of
             Inl e \<Rightarrow>
               if e = EOFError then Some (Inr (), tr @ [StreamRead 1024, StreamData chunk])
               else Some (Inl e, tr @ [StreamRead 1024, StreamData chunk])
           | Inr u \<Rightarrow> feed env (tr @ [StreamRead 1024, StreamData chunk]))) = Some y"
  show "\<exists>evs. snd y = tr @ evs \<and> list_all engine_event evs"
  proof (cases "stream_read env tr 1024")
    case (Inl e)
    with body show ?thesis
      by (auto split: if_splits)
  next
    case (Inr chunk)
    show ?thesis
    proof (cases "stream_data env (tr @ [StreamRead 1024]) chunk")
      case (Inl e)
      with body Inr show ?thesis
        by (auto split: if_splits)
    next
      case (Inr u)
      with body \<open>stream_read env tr 1024 = Inr chunk\<close>
      have "feed env (tr @ [StreamRead 1024, StreamData chunk]) = Some y"
        by simp
      from ih [OF this] obtain evs
        where "snd y = (tr @ [StreamRead 1024, StreamData chunk]) @ evs"
          and "list_all engine_event evs"
        by blast
      then have "snd y = tr @ ([StreamRead 1024, StreamData chunk] @ evs)
                 \<and> list_all engine_event ([StreamRead 1024, StreamData chunk] @ evs)"
        by simp
      then show ?thesis by blast
    qed
  qed
qed

lemma outbound_feed_loop_snd:
  assumes "feed_loop env tr = Some y"
  shows "outbound (snd y) = outbound tr"
  using assms
proof (rule feed_loop.raw_induct [rotated 1])
  fix feed env tr y
  assume ih: "\<And>env tr y. feed env tr = Some y \<Longrightarrow> outbound (snd y) = outbound tr"
    and body: "(case stream_read env tr 1024 of
        Inl e \<Rightarrow>
          if e = EOFError then Some (Inr (), tr @ [StreamRead 1024])
          else Some (Inl e, tr @ [StreamRead 1024])
      | Inr chunk \<Rightarrow>
          (case stream_data env (tr @ [StreamRead 1024]) chunk of
             Inl e \<Rightarrow>
               if e = EOFError then Some (Inr (), tr @ [StreamRead 1024, StreamData chunk])
               else Some (Inl e, tr @ [StreamRead 1024, StreamData chunk])
           | Inr u \<Rightarrow> feed env (tr @ [StreamRead 1024, StreamData chunk]))) = Some y"
  show "outbound (snd y) = outbound tr"
  proof (cases "stream_read env tr 1024")
    case (Inl e)
    with body show ?thesis
      by (auto simp: outbound_def split: if_splits)
  next
    case (Inr chunk)
    show ?thesis
    proof (cases "stream_data env (tr @ [StreamRead 1024]) chunk")
      case (Inl e)
      with body Inr show ?thesis
        by (auto simp: outbound_def split: if_splits)
    next
      case (Inr u)
      with body \<open>stream_read env tr 1024 = Inr chunk\<close>
      have "feed env (tr @ [StreamRead 1024, StreamData chunk]) = Some y"
        by simp
      from ih [OF this] show ?thesis
        by (simp add: outbound_def)
    qed
  qed
qed

lemma outbound_feed_loop:
  "feed_loop env tr = Some (r, tr') \<Longrightarrow> outbound tr' = outbound tr"
  using outbound_feed_loop_snd by fastforce

text \<open>One call runs its whole cycle on the engine between acquiring the lock and
  releasing it, and the lock is released on every way out.\<close>

lemma stream_cycle_under_lock:
  assumes "stream_cycle env lang tr = Some (r, tr')"
  shows "\<exists>evs. tr' = tr @ [LockAcquire] @ evs @ [LockRelease] \<and> list_all engine_event evs"
proof (cases "stream_start env (tr @ [LockAcquire]) lang")
  case (Inl e)
  with assms have "tr' = tr @ [LockAcquire] @ [StreamStart lang] @ [LockRelease]"
    by (simp add: stream_cycle_def)
  then show ?thesis
    by (intro exI [of _ "[StreamStart lang]"]) simp
next
  case (Inr u)
  with assms obtain y where y: "feed_loop env (tr @ [LockAcquire, StreamStart lang]) = Some y"
    by (cases "feed_loop env (tr @ [LockAcquire, StreamStart lang])")
       (auto simp: stream_cycle_def)
  obtain evs where evs: "snd y = (tr @ [LockAcquire, StreamStart lang]) @ evs"
      "list_all engine_event evs"
    using feed_loop_engine_events [OF y] by blast
  have "tr' = snd y @ [LockRelease] \<or> tr' = snd y @ [StreamStop, LockRelease]"
    using assms Inr y
    by (cases y) (auto simp: stream_cycle_def split: sum.splits)
  then show ?thesis
  proof
    assume "tr' = snd y @ [LockRelease]"
    with evs show ?thesis
      by (intro exI [of _ "StreamStart lang # evs"]) simp
  next
    assume "tr' = snd y @ [StreamStop, LockRelease]"
    with evs show ?thesis
      by (intro exI [of _ "StreamStart lang # evs @ [StreamStop]"]) simp
  qed
qed

lemma outbound_stream_cycle:
  "stream_cycle env lang tr = Some (r, tr') \<Longrightarrow> outbound tr' = outbound tr"
  by (auto simp: stream_cycle_def Let_def outbound_def dest!: outbound_feed_loop
      split: sum.splits option.splits prod.splits)

lemma outbound_get_stt_from_file:
  "get_stt_from_file env wav lang tr = Some (r, tr') \<Longrightarrow> outbound tr' = outbound tr"
  by (auto simp: get_stt_from_file_def Let_def outbound_def dest!: outbound_stream_cycle
      split: sum.splits option.splits prod.splits if_splits)

text \<open>With the batch engine the coordinator always returns or raises; with the shared
  engine, an EOFError after finitely many iterations ends the loop without an error.\<close>

lemma get_stt_from_file_batch_returns:
  "\<not> api_stt env \<Longrightarrow> get_stt_from_file env wav lang tr \<noteq> None"
  by (simp add: get_stt_from_file_def Let_def split: sum.splits prod.splits)

lemma feed_loop_eof: "eof_after env n tr \<Longrightarrow> \<exists>tr'. feed_loop env tr = Some (Inr (), tr')"
proof (induction n arbitrary: tr)
  case 0
  then show ?case
    by (subst feed_loop.simps) (auto split: sum.splits)
next
  case (Suc n)
  then show ?case
    by (subst feed_loop.simps) (auto split: sum.splits)
qed

lemma streaming_feed:
  "feed_loop streaming_env
     [FromFile (PStr ''sample.wav''), GetAudioFileStream (PStr ''sample.wav''), LockAcquire,
      StreamStart (PStr ''en-us'')]
   = Some (Inr (),
       [FromFile (PStr ''sample.wav''), GetAudioFileStream (PStr ''sample.wav''), LockAcquire,
        StreamStart (PStr ''en-us''), StreamRead 1024, StreamData ''chunk'', StreamRead 1024,
        StreamData ''chunk'', StreamRead 1024])"
  by (simp add: feed_loop.simps streaming_env_def sample_env_def)

lemma eof_on_feed:
  "feed_loop eof_on_feed_env
     [FromFile (PStr ''sample.wav''), GetAudioFileStream (PStr ''sample.wav''), LockAcquire,
      StreamStart (PStr ''en-us'')]
   = Some (Inr (),
       [FromFile (PStr ''sample.wav''), GetAudioFileStream (PStr ''sample.wav''), LockAcquire,
        StreamStart (PStr ''en-us''), StreamRead 1024, StreamData ''chunk'', StreamRead 1024,
        StreamData ''chunk''])"
  by (simp add: feed_loop.simps eof_on_feed_env_def streaming_env_def sample_env_def)

section \<open>The STT dispatch coordinator: properties\<close>

text \<open>
  Claim C6. On the shared streaming engine, let the audio decode, the stream open and
  \<^verbatim>\<open>stream_start\<close> return, and let an EOFError be raised after \<open>n\<close> full iterations, by
  the read or by the feed. Then the feed loop exits, and not with an error;
  \<^verbatim>\<open>stream_stop\<close> is called next, on the trace the loop left; and what it returns is
  the transcript list of the result (an exception of \<^verbatim>\<open>stream_stop\<close> or of the
  extractor is raised as it is).
\<close>

theorem eof_ends_feed_loop:
  assumes "api_stt env"
    and "from_file env tr wav = Inr seg"
    and "AudioData env (raw_data seg) (frame_rate seg) (seg_sample_width seg) = Inr ad"
    and "get_audio_file_stream env (tr @ [FromFile wav]) wav = Inr ()"
    and "stream_start env (tr @ [FromFile wav, GetAudioFileStream wav, LockAcquire]) lang = Inr ()"
    and "eof_after env n
           (tr @ [FromFile wav, GetAudioFileStream wav, LockAcquire, StreamStart lang])"
  shows "\<exists>tr2.
           feed_loop env (tr @ [FromFile wav, GetAudioFileStream wav, LockAcquire, StreamStart lang])
             = Some (Inr (), tr2)
         \<and> get_stt_from_file env wav lang tr =
             (case stream_stop env tr2 of
                Inl e \<Rightarrow> Some (Inl e, tr2 @ [StreamStop, LockRelease])
              | Inr ts \<Rightarrow>
                  (case get_context env (tr2 @ [StreamStop, LockRelease]) ad of
                     Inl e \<Rightarrow> Some (Inl e, tr2 @ [StreamStop, LockRelease, GetContext ad])
                   | Inr (a, c) \<Rightarrow>
                       Some (Inr (a, c, ts), tr2 @ [StreamStop, LockRelease, GetContext ad])))"
proof -
  obtain tr2 where l: "feed_loop env
      (tr @ [FromFile wav, GetAudioFileStream wav, LockAcquire, StreamStart lang]) = Some (Inr (), tr2)"
    using feed_loop_eof [OF assms(6)] by blast
  have "get_stt_from_file env wav lang tr =
          (case stream_stop env tr2 of
                Inl e \<Rightarrow> Some (Inl e, tr2 @ [StreamStop, LockRelease])
              | Inr ts \<Rightarrow>
                  (case get_context env (tr2 @ [StreamStop, LockRelease]) ad of
                     Inl e \<Rightarrow> Some (Inl e, tr2 @ [StreamStop, LockRelease, GetContext ad])
                   | Inr (a, c) \<Rightarrow>
                       Some (Inr (a, c, ts), tr2 @ [StreamStop, LockRelease, GetContext ad])))"
    using assms(1-5) l
    by (simp add: get_stt_from_file_def stream_cycle_def split: sum.splits prod.splits)
  with l show ?thesis by blast
qed

text \<open>A stream of two chunks whose third read raises EOFError; and a feed that raises
  EOFError at the second chunk.\<close>

theorem eof_ends_feed_loop_witness:
  "eof_after streaming_env 2
     [FromFile (PStr ''sample.wav''), GetAudioFileStream (PStr ''sample.wav''), LockAcquire,
      StreamStart (PStr ''en-us'')]
   \<and> get_stt_from_file streaming_env (PStr ''sample.wav'') (PStr ''en-us'') [] =
       Some (Inr (sample_audio, PDict [(''confidence'', PNum 1)], PList [PStr ''hello world'']),
         [FromFile (PStr ''sample.wav''), GetAudioFileStream (PStr ''sample.wav''), LockAcquire,
          StreamStart (PStr ''en-us''), StreamRead 1024, StreamData ''chunk'', StreamRead 1024,
          StreamData ''chunk'', StreamRead 1024, StreamStop, LockRelease,
          GetContext sample_audio])
   \<and> eof_after eof_on_feed_env 1
     [FromFile (PStr ''sample.wav''), GetAudioFileStream (PStr ''sample.wav''), LockAcquire,
      StreamStart (PStr ''en-us'')]
   \<and> get_stt_from_file eof_on_feed_env (PStr ''sample.wav'') (PStr ''en-us'') [] =
       Some (Inr (sample_audio, PDict [(''confidence'', PNum 1)], PList [PStr ''hello world'']),
         [FromFile (PStr ''sample.wav''), GetAudioFileStream (PStr ''sample.wav''), LockAcquire,
          StreamStart (PStr ''en-us''), StreamRead 1024, StreamData ''chunk'', StreamRead 1024,
          StreamData ''chunk'', StreamStop, LockRelease, GetContext sample_audio])"
proof -
  let ?wav = "PStr ''sample.wav''"
  let ?seg = "\<lparr>raw_data = ''RIFF'', frame_rate = 16000, seg_sample_width = 2\<rparr>"
  let ?tr = "[] @ [FromFile ?wav, GetAudioFileStream ?wav, LockAcquire, StreamStart (PStr ''en-us'')]"
  have a: "api_stt streaming_env" and a': "api_stt eof_on_feed_env"
    by (simp_all add: eof_on_feed_env_def streaming_env_def)
  have b: "from_file streaming_env [] ?wav = Inr ?seg"
    and b': "from_file eof_on_feed_env [] ?wav = Inr ?seg"
    by (simp_all add: eof_on_feed_env_def streaming_env_def sample_env_def)
  have c: "AudioData streaming_env (raw_data ?seg) (frame_rate ?seg) (seg_sample_width ?seg)
             = Inr sample_audio"
    and c': "AudioData eof_on_feed_env (raw_data ?seg) (frame_rate ?seg) (seg_sample_width ?seg)
             = Inr sample_audio"
    by (simp_all add: eof_on_feed_env_def streaming_env_def sample_env_def sample_audio_def)
  have d: "get_audio_file_stream streaming_env ([] @ [FromFile ?wav]) ?wav = Inr ()"
    and d': "get_audio_file_stream eof_on_feed_env ([] @ [FromFile ?wav]) ?wav = Inr ()"
    by (simp_all add: eof_on_feed_env_def streaming_env_def sample_env_def)
  have e: "stream_start streaming_env ([] @ [FromFile ?wav, GetAudioFileStream ?wav, LockAcquire])
             (PStr ''en-us'') = Inr ()"
    and e': "stream_start eof_on_feed_env ([] @ [FromFile ?wav, GetAudioFileStream ?wav, LockAcquire])
             (PStr ''en-us'') = Inr ()"
    by (simp_all add: eof_on_feed_env_def streaming_env_def sample_env_def)
  have f: "eof_after streaming_env 2 ?tr"
    by (simp add: eval_nat_numeral streaming_env_def sample_env_def)
  have f': "eof_after eof_on_feed_env 1 ?tr"
    by (simp add: eof_on_feed_env_def streaming_env_def sample_env_def)
  have g: "get_stt_from_file streaming_env ?wav (PStr ''en-us'') [] =
       Some (Inr (sample_audio, PDict [(''confidence'', PNum 1)], PList [PStr ''hello world'']),
         [FromFile ?wav, GetAudioFileStream ?wav, LockAcquire,
          StreamStart (PStr ''en-us''), StreamRead 1024, StreamData ''chunk'', StreamRead 1024,
          StreamData ''chunk'', StreamRead 1024, StreamStop, LockRelease,
          GetContext sample_audio])"
    using eof_ends_feed_loop [OF a b c d e f]
    by (simp add: streaming_feed) (simp add: streaming_env_def sample_env_def)
  have g': "get_stt_from_file eof_on_feed_env ?wav (PStr ''en-us'') [] =
       Some (Inr (sample_audio, PDict [(''confidence'', PNum 1)], PList [PStr ''hello world'']),
         [FromFile ?wav, GetAudioFileStream ?wav, LockAcquire,
          StreamStart (PStr ''en-us''), StreamRead 1024, StreamData ''chunk'', StreamRead 1024,
          StreamData ''chunk'', StreamStop, LockRelease, GetContext sample_audio])"
    using eof_ends_feed_loop [OF a' b' c' d' e' f']
    by (simp add: eof_on_feed) (simp add: eof_on_feed_env_def streaming_env_def sample_env_def)
  show ?thesis
    using f f' g g' by simp
qed

text \<open>
  Claim C3, as amended. After a transcription that succeeded, on either engine, the
  extractor is called once and without a \<^verbatim>\<open>try\<close>: if it raises,
  \<^verbatim>\<open>_get_stt_from_file\<close> raises that exception and returns neither a context nor the
  transcript list; if it returns, its audio and context are returned together with the
  engine's transcript list, unchanged.
\<close>

theorem extractor_failure_propagates:
  assumes "from_file env tr wav = Inr seg"
    and "AudioData env (raw_data seg) (frame_rate seg) (seg_sample_width seg) = Inr ad"
    and "(api_stt env
          \<and> get_audio_file_stream env (tr @ [FromFile wav]) wav = Inr ()
          \<and> stream_cycle env lang (tr @ [FromFile wav, GetAudioFileStream wav]) = Some (Inr ts, tr2))
         \<or> (\<not> api_stt env
          \<and> transcribe env (tr @ [FromFile wav]) ad lang = Inr ts
          \<and> tr2 = tr @ [FromFile wav, Transcribe ad lang])"
  shows "get_stt_from_file env wav lang tr =
           (case get_context env tr2 ad of
              Inl e \<Rightarrow> Some (Inl e, tr2 @ [GetContext ad])
            | Inr (a, c) \<Rightarrow> Some (Inr (a, c, ts), tr2 @ [GetContext ad]))"
  using assms
  by (auto simp: get_stt_from_file_def split: sum.splits prod.splits)

text \<open>The batch engine hears \<^verbatim>\<open>hello world\<close>; then an extractor that raises, and one
  that returns.\<close>

theorem extractor_failure_propagates_witness:
  "transcribe failing_extractor_env [FromFile (PStr ''sample.wav'')] sample_audio (PStr ''en-us'')
     = Inr (PList [PStr ''hello world''])
   \<and> get_stt_from_file failing_extractor_env (PStr ''sample.wav'') (PStr ''en-us'') [] =
       Some (Inl (OtherError ''RuntimeError(extractor failed)''),
             [FromFile (PStr ''sample.wav''), Transcribe sample_audio (PStr ''en-us''),
              GetContext sample_audio])
   \<and> get_stt_from_file sample_env (PStr ''sample.wav'') (PStr ''en-us'') [] =
       Some (Inr (sample_audio, PDict [(''confidence'', PNum 1)], PList [PStr ''hello world'']),
             [FromFile (PStr ''sample.wav''), Transcribe sample_audio (PStr ''en-us''),
              GetContext sample_audio])"
proof -
  let ?wav = "PStr ''sample.wav''"
  let ?seg = "\<lparr>raw_data = ''RIFF'', frame_rate = 16000, seg_sample_width = 2\<rparr>"
  let ?tr2 = "[] @ [FromFile ?wav, Transcribe sample_audio (PStr ''en-us'')]"
  have a: "from_file failing_extractor_env [] ?wav = Inr ?seg"
    and a': "from_file sample_env [] ?wav = Inr ?seg"
    by (simp_all add: failing_extractor_env_def sample_env_def)
  have b: "AudioData failing_extractor_env (raw_data ?seg) (frame_rate ?seg) (seg_sample_width ?seg)
             = Inr sample_audio"
    and b': "AudioData sample_env (raw_data ?seg) (frame_rate ?seg) (seg_sample_width ?seg)
             = Inr sample_audio"
    by (simp_all add: failing_extractor_env_def sample_env_def sample_audio_def)
  have t: "transcribe failing_extractor_env ([] @ [FromFile ?wav]) sample_audio (PStr ''en-us'')
             = Inr (PList [PStr ''hello world''])"
    and t': "transcribe sample_env ([] @ [FromFile ?wav]) sample_audio (PStr ''en-us'')
             = Inr (PList [PStr ''hello world''])"
    by (simp_all add: failing_extractor_env_def sample_env_def)
  have c: "(api_stt failing_extractor_env
          \<and> get_audio_file_stream failing_extractor_env ([] @ [FromFile ?wav]) ?wav = Inr ()
          \<and> stream_cycle failing_extractor_env (PStr ''en-us'')
               ([] @ [FromFile ?wav, GetAudioFileStream ?wav])
              = Some (Inr (PList [PStr ''hello world'']), ?tr2))
         \<or> (\<not> api_stt failing_extractor_env
          \<and> transcribe failing_extractor_env ([] @ [FromFile ?wav]) sample_audio (PStr ''en-us'')
              = Inr (PList [PStr ''hello world''])
          \<and> ?tr2 = [] @ [FromFile ?wav, Transcribe sample_audio (PStr ''en-us'')])"
    using t by (simp add: failing_extractor_env_def sample_env_def)
  have c': "(api_stt sample_env
          \<and> get_audio_file_stream sample_env ([] @ [FromFile ?wav]) ?wav = Inr ()
          \<and> stream_cycle sample_env (PStr ''en-us'')
               ([] @ [FromFile ?wav, GetAudioFileStream ?wav])
              = Some (Inr (PList [PStr ''hello world'']), ?tr2))
         \<or> (\<not> api_stt sample_env
          \<and> transcribe sample_env ([] @ [FromFile ?wav]) sample_audio (PStr ''en-us'')
              = Inr (PList [PStr ''hello world''])
          \<and> ?tr2 = [] @ [FromFile ?wav, Transcribe sample_audio (PStr ''en-us'')])"
    using t' by (simp add: sample_env_def)
  have g: "get_context failing_extractor_env ?tr2 sample_audio
             = Inl (OtherError ''RuntimeError(extractor failed)'')"
    by (simp add: failing_extractor_env_def)
  have g': "get_context sample_env ?tr2 sample_audio
             = Inr (sample_audio, PDict [(''confidence'', PNum 1)])"
    by (simp add: sample_env_def)
  show ?thesis
    using t extractor_failure_propagates [OF a b c] extractor_failure_propagates [OF a' b' c'] g g'
    by simp
qed

text \<open>
  Claim C3 as stated says that the transcription still succeeds, with an absent context
  and the engine's transcript list. Here the engine returns \<^verbatim>\<open>["hello world"]\<close>, the
  extractor raises, and the call does not return that triple: it raises the extractor's
  exception.
\<close>

theorem extractor_failure_fails_transcription:
  "transcribe failing_extractor_env [FromFile (PStr ''sample.wav'')] sample_audio (PStr ''en-us'')
     = Inr (PList [PStr ''hello world''])
   \<and> get_context failing_extractor_env
        [FromFile (PStr ''sample.wav''), Transcribe sample_audio (PStr ''en-us'')] sample_audio
     = Inl (OtherError ''RuntimeError(extractor failed)'')
   \<and> get_stt_from_file failing_extractor_env (PStr ''sample.wav'') (PStr ''en-us'') [] \<noteq>
       Some (Inr (sample_audio, PNone, PList [PStr ''hello world'']),
             [FromFile (PStr ''sample.wav''), Transcribe sample_audio (PStr ''en-us''),
              GetContext sample_audio])
   \<and> get_stt_from_file failing_extractor_env (PStr ''sample.wav'') (PStr ''en-us'') [] =
       Some (Inl (OtherError ''RuntimeError(extractor failed)''),
             [FromFile (PStr ''sample.wav''), Transcribe sample_audio (PStr ''en-us''),
              GetContext sample_audio])"
  by (simp add: get_stt_from_file_def failing_extractor_env_def sample_env_def sample_audio_def)

section \<open>The file-based transcription API: properties\<close>

text \<open>
  Claim C2 at the inputs where the code departs from it. For a get-stt request whose
  \<^verbatim>\<open>audio_file\<close> is a non-empty path that names no file, the handler emits the reply
  \<^verbatim>\<open>{"error": "<path> Not found!"}\<close> and, having no \<^verbatim>\<open>return\<close> there, goes on to
  \<^verbatim>\<open>_get_stt_from_file\<close>: the decoding of the missing file is attempted, and when it
  raises, a second error reply is emitted with the \<^verbatim>\<open>repr\<close> of that exception. The
  claim says the reply is exactly the first one and nothing is decoded.
\<close>

theorem get_stt_missing_file_falls_through:
  assumes "dict_get (msg_data m) ''audio_file'' = PStr p" and "p \<noteq> []"
    and "isfile env tr (PStr p) = Inr False"
    and "ident = py_or (dict_get (msg_context m) ''ident'') (PStr ''neon.get_stt.response'')"
    and "not_found = reply env m ident [(''error'', PStr (p @ '' Not found!''))]"
    and "from_file env (tr @ [Emit not_found]) (PStr p) = Inl e"
  shows "handle_get_stt env m tr =
           Some (Inr (),
                 tr @ [Emit not_found, FromFile (PStr p), Log ERROR [LExn e],
                       Emit (reply env m ident [(''error'', PStr (py_repr env e))])])"
  using assms
  by (simp add: handle_get_stt_def get_stt_from_file_def format_str_def Let_def)

text \<open>The request for \<^verbatim>\<open>missing.wav\<close>: two replies, and a decoding between them.\<close>

theorem get_stt_missing_file_falls_through_witness:
  "handle_get_stt sample_env missing_request [] =
     Some (Inr (),
       [Emit (reply sample_env missing_request (PStr ''neon.get_stt.response'')
                [(''error'', PStr ''missing.wav Not found!'')]),
        FromFile (PStr ''missing.wav''),
        Log ERROR [LExn (OtherError ''FileNotFoundError()'')],
        Emit (reply sample_env missing_request (PStr ''neon.get_stt.response'')
                [(''error'', PStr ''FileNotFoundError()'')])])"
proof -
  let ?id = "PStr ''neon.get_stt.response''"
  let ?nf = "reply sample_env missing_request ?id [(''error'', PStr (''missing.wav'' @ '' Not found!''))]"
  have a: "dict_get (msg_data missing_request) ''audio_file'' = PStr ''missing.wav''"
    by (simp add: missing_request_def dict_get_def)
  have b: "''missing.wav'' \<noteq> []" by simp
  have c: "isfile sample_env [] (PStr ''missing.wav'') = Inr False"
    by (simp add: sample_env_def)
  have d: "?id = py_or (dict_get (msg_context missing_request) ''ident'') ?id"
    by (simp add: missing_request_def dict_get_def py_or_def)
  have f: "from_file sample_env ([] @ [Emit ?nf]) (PStr ''missing.wav'')
             = Inl (OtherError ''FileNotFoundError()'')"
    by (simp add: sample_env_def)
  show ?thesis
    using get_stt_missing_file_falls_through [OF a b c d refl f]
    by (simp add: sample_env_def)
qed

text \<open>
  Claim C8 at the inputs where the code departs from it. For a get-stt request that
  names an existing file and has no \<^verbatim>\<open>lang\<close>, the handler passes
  \<^verbatim>\<open>message.data.get("lang")\<close>, which is None, so the default \<^verbatim>\<open>en-us\<close> of the
  signature does not apply: the batch engine is called with the language None. The claim
  says the engine is given \<^verbatim>\<open>en-us\<close>.
\<close>

theorem get_stt_omitted_lang_reaches_engine:
  assumes "\<not> dict_contains (msg_data m) ''lang''"
    and "dict_get (msg_data m) ''audio_file'' = wav" and "truthy wav"
    and "isfile env tr wav = Inr True"
    and "from_file env tr wav = Inr seg"
    and "AudioData env (raw_data seg) (frame_rate seg) (seg_sample_width seg) = Inr ad"
    and "\<not> api_stt env"
    and "transcribe env (tr @ [FromFile wav]) ad PNone = Inr ts"
    and "get_context env (tr @ [FromFile wav, Transcribe ad PNone]) ad = Inr (a, c)"
  shows "handle_get_stt env m tr =
           Some (Inr (),
                 tr @ [FromFile wav, Transcribe ad PNone, GetContext ad,
                       Emit (reply env m
                               (py_or (dict_get (msg_context m) ''ident'')
                                  (PStr ''neon.get_stt.response''))
                               [(''parser_data'', c), (''transcripts'', ts)])])"
proof -
  have "dict_get (msg_data m) ''lang'' = PNone"
    using assms(1) by (simp add: dict_contains_def dict_get_def split: option.splits)
  then show ?thesis
    using assms(2-9)
    by (simp add: handle_get_stt_def get_stt_from_file_def Let_def)
qed

text \<open>The request \<^verbatim>\<open>{"audio_file": "sample.wav"}\<close>.\<close>

theorem get_stt_omitted_lang_reaches_engine_witness:
  "\<not> dict_contains (msg_data nolang_request) ''lang''
   \<and> handle_get_stt sample_env nolang_request [] =
       Some (Inr (),
         [FromFile (PStr ''sample.wav''), Transcribe sample_audio PNone, GetContext sample_audio,
          Emit \<lparr>msg_type = PStr ''neon.get_stt.response'',
                 msg_data = [(''parser_data'', PDict [(''confidence'', PNum 1)]),
                             (''transcripts'', PList [PStr ''hello world''])],
                 msg_context = []\<rparr>])"
proof -
  let ?wav = "PStr ''sample.wav''"
  let ?seg = "\<lparr>raw_data = ''RIFF'', frame_rate = 16000, seg_sample_width = 2\<rparr>"
  have a: "\<not> dict_contains (msg_data nolang_request) ''lang''"
    by (simp add: nolang_request_def dict_contains_def)
  have b: "dict_get (msg_data nolang_request) ''audio_file'' = ?wav"
    by (simp add: nolang_request_def dict_get_def)
  have c: "truthy ?wav" by simp
  have d: "isfile sample_env [] ?wav = Inr True"
    and e: "from_file sample_env [] ?wav = Inr ?seg"
    and f: "AudioData sample_env (raw_data ?seg) (frame_rate ?seg) (seg_sample_width ?seg)
              = Inr sample_audio"
    and g: "\<not> api_stt sample_env"
    and h: "transcribe sample_env ([] @ [FromFile ?wav]) sample_audio PNone
              = Inr (PList [PStr ''hello world''])"
    and i: "get_context sample_env ([] @ [FromFile ?wav, Transcribe sample_audio PNone]) sample_audio
              = Inr (sample_audio, PDict [(''confidence'', PNum 1)])"
    by (simp_all add: sample_env_def sample_audio_def)
  show ?thesis
    using a get_stt_omitted_lang_reaches_engine [OF a b c d e f g h i]
    by (simp add: nolang_request_def dict_get_def py_or_def reply_def sample_env_def)
qed

text \<open>
  Claim C9, as amended. For an audio-input request whose context has a truthy
  \<^verbatim>\<open>klat_data\<close>, once \<^verbatim>\<open>_get_stt_from_file\<close> has returned or raised: the handler
  returns; the only message it puts on the bus after the transcription is one reply to
  the requester, whose data is \<^verbatim>\<open>{"error": repr(e)}\<close>; and nothing is published to the
  skills. When the transcription succeeded, \<open>e\<close> is the TypeError that
  \<^verbatim>\<open>build_context\<close> raises, after reading the clock twice, before the publish step.
\<close>

theorem audio_input_klat_data_fails:
  assumes "truthy (dict_get (msg_context m) ''klat_data'')"
    and "get_stt_from_file env (dict_get (msg_data m) ''audio_file'')
           (dict_get (msg_data m) ''lang'') tr = Some (r, tr1)"
    and "ident = py_or (dict_get (msg_context m) ''ident'') (PStr ''neon.audio_input.response'')"
    and "failure = TypeError ''dict object is not callable''"
  shows "handle_audio_input env m tr =
           Some (Inr (),
             (case r of
                Inl e \<Rightarrow>
                  tr1 @ [Log ERROR [LExn e],
                         Emit (reply env m ident [(''error'', PStr (py_repr env e))])]
              | Inr (a, parser_data, ts) \<Rightarrow>
                  tr1 @ [Clock, Clock, Log ERROR [LExn failure],
                         Emit (reply env
                                 (m\<lparr>msg_context :=
                                      dict_set (msg_context m) ''audio_parser_data'' parser_data\<rparr>)
                                 ident [(''error'', PStr (py_repr env failure))])]))
         \<and> (\<exists>evs answer e. handle_audio_input env m tr = Some (Inr (), tr1 @ evs)
               \<and> outbound evs = [answer] \<and> msg_type answer = ident
               \<and> msg_data answer = [(''error'', PStr (py_repr env e))])"
proof (cases r)
  case (Inl e)
  then have "handle_audio_input env m tr =
      Some (Inr (), tr1 @ [Log ERROR [LExn e],
                           Emit (reply env m ident [(''error'', PStr (py_repr env e))])])"
    using assms by (simp add: handle_audio_input_def Let_def)
  moreover have "outbound [Log ERROR [LExn e],
        Emit (reply env m ident [(''error'', PStr (py_repr env e))])]
      = [reply env m ident [(''error'', PStr (py_repr env e))]]"
    by (simp add: outbound_def)
  ultimately show ?thesis
    using Inl by (auto simp: reply_def)
next
  case (Inr t)
  obtain a pd ts where t: "t = (a, pd, ts)" by (cases t)
  let ?m' = "m\<lparr>msg_context := dict_set (msg_context m) ''audio_parser_data'' pd\<rparr>"
  have b: "build_context env ?m' tr1 = (Inl failure, tr1 @ [Clock, Clock])"
    using assms(1,4) by (simp add: build_context_def Let_def dict_get_set)
  have h: "handle_audio_input env m tr =
      Some (Inr (), tr1 @ [Clock, Clock, Log ERROR [LExn failure],
                           Emit (reply env ?m' ident [(''error'', PStr (py_repr env failure))])])"
    using assms(2,3) Inr t b by (simp add: handle_audio_input_def Let_def)
  moreover have "outbound [Clock, Clock, Log ERROR [LExn failure],
        Emit (reply env ?m' ident [(''error'', PStr (py_repr env failure))])]
      = [reply env ?m' ident [(''error'', PStr (py_repr env failure))]]"
    by (simp add: outbound_def)
  ultimately show ?thesis
    using Inr t by (auto simp: reply_def)
qed

text \<open>The context \<^verbatim>\<open>{"klat_data": {"sid": "42"}}\<close>.\<close>

theorem audio_input_klat_data_fails_witness:
  "truthy (dict_get (msg_context (klat_input_request (PDict [(''sid'', PStr ''42'')]))) ''klat_data'')
   \<and> handle_audio_input sample_env (klat_input_request (PDict [(''sid'', PStr ''42'')])) [] =
       Some (Inr (),
         [FromFile (PStr ''sample.wav''), Transcribe sample_audio (PStr ''en-us''),
          GetContext sample_audio, Clock, Clock,
          Log ERROR [LExn (TypeError ''dict object is not callable'')],
          Emit \<lparr>msg_type = PStr ''neon.audio_input.response'',
                 msg_data = [(''error'', PStr ''TypeError(dict object is not callable)'')],
                 msg_context = [(''klat_data'', PDict [(''sid'', PStr ''42'')]),
                                (''audio_parser_data'', PDict [(''confidence'', PNum 1)])]\<rparr>])"
proof -
  let ?m = "klat_input_request (PDict [(''sid'', PStr ''42'')])"
  have a: "truthy (dict_get (msg_context ?m) ''klat_data'')"
    by (simp add: klat_input_request_def dict_get_def)
  have b: "get_stt_from_file sample_env (dict_get (msg_data ?m) ''audio_file'')
             (dict_get (msg_data ?m) ''lang'') [] =
           Some (Inr (sample_audio, PDict [(''confidence'', PNum 1)], PList [PStr ''hello world'']),
                 [FromFile (PStr ''sample.wav''), Transcribe sample_audio (PStr ''en-us''),
                  GetContext sample_audio])"
    by (simp add: get_stt_from_file_def sample_env_def klat_input_request_def dict_get_def
        sample_audio_def)
  show ?thesis
    using a audio_input_klat_data_fails [OF a b refl refl]
    by (simp add: klat_input_request_def dict_get_def dict_set_def py_or_def reply_def
        sample_env_def)
qed

text \<open>
  Claim C9 as stated speaks of every context that contains a \<^verbatim>\<open>klat_data\<close> entry. The
  guard of \<^verbatim>\<open>build_context\<close> is \<^verbatim>\<open>if msg.context.get("klat_data")\<close>: with the entry
  present but empty, \<^verbatim>\<open>{"klat_data": {}}\<close>, the context is built, the utterance is
  published, and the reply carries the transcripts and no error.
\<close>

theorem audio_input_empty_klat_data_publishes:
  "dict_contains (msg_context (klat_input_request (PDict []))) ''klat_data''
   \<and> handle_audio_input sample_env (klat_input_request (PDict [])) [] =
       Some (Inr (),
         [FromFile (PStr ''sample.wav''), Transcribe sample_audio (PStr ''en-us''),
          GetContext sample_audio, Clock, Clock,
          WaitForResponse published_utterance 10,
          Log ERROR [LStr ''Skills didn't handle '', LVal (PNum 4), LStr ''!''],
          Emit \<lparr>msg_type = PStr ''neon.audio_input.response'',
                 msg_data = [(''parser_data'', PDict [(''confidence'', PNum 1)]),
                             (''transcripts'', PList [PStr ''hello world'']),
                             (''skills_recv'', PBool False)],
                 msg_context = [(''klat_data'', PDict []),
                                (''audio_parser_data'', PDict [(''confidence'', PNum 1)])]\<rparr>])"
  by (simp add: handle_audio_input_def get_stt_from_file_def build_context_def
      emit_utterance_to_skills_def sample_env_def klat_input_request_def published_utterance_def
      sample_audio_def dict_contains_def dict_get_def dict_get_default_def dict_set_def
      dict_item_def py_or_def reply_def Message_def Let_def)

section \<open>The legacy klat transport: properties\<close>

text \<open>The first part of the handler puts nothing on the bus and keeps the audio file
  it read; a falsy transcript list has no first element, so when the second part
  yields one it has emitted nothing either.\<close>

lemma outbound_klat_request:
  "klat_request env m tr = (r, tr') \<Longrightarrow> outbound tr' = outbound tr"
  by (auto simp: klat_request_def Let_def outbound_def
      split: sum.splits exn.splits prod.splits)

lemma klat_request_audio_file:
  "klat_request env m tr = (Inr loc, tr') \<Longrightarrow>
     loc_audio_file loc = dict_get (msg_data m) ''raw_audio''"
  by (auto simp: klat_request_def Let_def split: sum.splits exn.splits prod.splits)

lemma klat_transcriptions_falsy:
  assumes "klat_transcriptions env m loc tr = Some (Some (ac, ts), tr')" and "\<not> truthy ts"
  shows "outbound tr' = outbound tr"
proof (cases "truthy (loc_audio_file loc)")
  case False
  with assms show ?thesis
    by (auto simp: klat_transcriptions_def split: if_splits)
next
  case True
  obtain r tr1 where g: "get_stt_from_file env (loc_audio_file loc) (loc_stt_language loc) tr
      = Some (r, tr1)"
    using assms(1) True
    by (cases "get_stt_from_file env (loc_audio_file loc) (loc_stt_language loc) tr")
       (auto simp: klat_transcriptions_def)
  have o: "outbound tr1 = outbound tr"
    using outbound_get_stt_from_file [OF g] .
  obtain e where i: "py_index0 ts = Inl e"
    using falsy_index0 [OF assms(2)] by blast
  show ?thesis
    using assms True g o i
    by (auto simp: klat_transcriptions_def Let_def outbound_def
        split: sum.splits prod.splits if_splits)
qed

lemma klat_request_silent:
  "klat_request silent_env klat_audio_request [] =
     (Inr (klat_sample_locals (PStr ''sample.wav'')), klat_sample_trace (PStr ''sample.wav''))"
  by (simp add: klat_request_def silent_env_def sample_env_def klat_audio_request_def
      klat_sample_locals_def klat_sample_trace_def dict_get_def py_item_def dict_item_def
      py_get_default_def dict_get_default_def format_str_def Let_def)

lemma klat_request_empty:
  "klat_request sample_env klat_empty_request [] =
     (Inr (klat_sample_locals PNone), klat_sample_trace PNone)"
  by (simp add: klat_request_def sample_env_def klat_empty_request_def
      klat_sample_locals_def klat_sample_trace_def dict_get_def py_item_def dict_item_def
      py_get_default_def dict_get_default_def format_str_def Let_def)

lemma klat_transcriptions_silent:
  "klat_transcriptions silent_env klat_audio_request (klat_sample_locals (PStr ''sample.wav''))
     (klat_sample_trace (PStr ''sample.wav''))
   = Some (Some (PDict [(''confidence'', PNum 1)], PList []),
           klat_sample_trace (PStr ''sample.wav'') @
             [FromFile (PStr ''sample.wav''), Transcribe sample_audio (PStr ''en''),
              GetContext sample_audio])"
  by (simp add: klat_transcriptions_def get_stt_from_file_def silent_env_def sample_env_def
      klat_audio_request_def klat_sample_locals_def klat_sample_trace_def dict_get_def
      sample_audio_def Let_def)

text \<open>
  Claim C10, as amended. For a klat request whose first part (the reading of the
  request and of the chat user database) succeeded: if the transcript list chosen by
  the second part is empty or null, the handler logs the warning and returns, having put
  no message on the bus; and when no audio is given, no transcription is asked for and
  no text payload is given (\<^verbatim>\<open>shout_text\<close> absent or null), the list is \<^verbatim>\<open>[None]\<close>,
  which passes the guard and is published as the utterances.
\<close>

theorem klat_transcript_guard:
  assumes "klat_request env m tr = (Inr loc, tr1)"
  shows "(klat_transcriptions env m loc tr1 = Some (Some (ac, ts), tr2) \<and> \<not> truthy ts \<longrightarrow>
            handle_input_from_klat env m tr =
              Some (Inr (), tr2 @ [Log WARNING [LStr ''Null Transcription!'']])
            \<and> outbound (tr2 @ [Log WARNING [LStr ''Null Transcription!'']]) = outbound tr)
       \<and> (\<not> truthy (dict_get (msg_data m) ''raw_audio'')
           \<and> \<not> truthy (dict_get (msg_data m) ''need_transcription'')
           \<and> dict_get (msg_data m) ''shout_text'' = PNone \<longrightarrow>
            (\<exists>ctx evs.
               handle_input_from_klat env m tr =
                 Some (Inr (),
                   tr1 @ [Clock,
                          Log DEBUG [LStr ''Send server request to skills for processing''],
                          WaitForResponse
                            (Message ''recognizer_loop:utterance''
                               [(''utterances'', PList [PNone]),
                                (''lang'', loc_stt_language loc)] ctx) 10] @ evs)
               \<and> outbound evs = []))"
proof (intro conjI impI)
  assume a: "klat_transcriptions env m loc tr1 = Some (Some (ac, ts), tr2) \<and> \<not> truthy ts"
  then show "handle_input_from_klat env m tr =
      Some (Inr (), tr2 @ [Log WARNING [LStr ''Null Transcription!'']])"
    using assms by (simp add: handle_input_from_klat_def klat_publish_def)
  have "outbound tr2 = outbound tr1"
    using a klat_transcriptions_falsy by blast
  moreover have "outbound tr1 = outbound tr"
    using outbound_klat_request [OF assms] .
  ultimately show "outbound (tr2 @ [Log WARNING [LStr ''Null Transcription!'']]) = outbound tr"
    by (simp add: outbound_def)
next
  assume b: "\<not> truthy (dict_get (msg_data m) ''raw_audio'')
           \<and> \<not> truthy (dict_get (msg_data m) ''need_transcription'')
           \<and> dict_get (msg_data m) ''shout_text'' = PNone"
  have f: "loc_audio_file loc = dict_get (msg_data m) ''raw_audio''"
    using klat_request_audio_file [OF assms] .
  have t: "klat_transcriptions env m loc tr1 = Some (Some (PNone, PList [PNone]), tr1)"
    using b f by (simp add: klat_transcriptions_def)
  show "\<exists>ctx evs.
               handle_input_from_klat env m tr =
                 Some (Inr (),
                   tr1 @ [Clock,
                          Log DEBUG [LStr ''Send server request to skills for processing''],
                          WaitForResponse
                            (Message ''recognizer_loop:utterance''
                               [(''utterances'', PList [PNone]),
                                (''lang'', loc_stt_language loc)] ctx) 10] @ evs)
               \<and> outbound evs = []"
    using assms t
    by (cases "wait_for_response env
          (tr1 @ [Clock, Log DEBUG [LStr ''Send server request to skills for processing'']])
          (Message ''recognizer_loop:utterance''
             [(''utterances'', PList [PNone]), (''lang'', loc_stt_language loc)]
             [(''client_name'', PStr ''mycroft_listener''),
                    (''source'', PStr ''klat''),
                    (''destination'', PList [PStr ''skills'']),
                    (''audio_parser_data'', PNone),
                    (''raw_audio'', dict_get (msg_data m) ''raw_audio''),
                    (''mobile'', PBool (loc_mobile loc)),
                    (''client'', PStr (loc_client loc)),
                    (''klat_data'',
                       PDict [(''cid'', dict_get (msg_data m) ''cid''),
                              (''sid'', dict_get (msg_data m) ''sid''),
                              (''title'', dict_get (msg_data m) ''title''),
                              (''nano'', dict_get (msg_data m) ''nano''),
                              (''request_id'', PStr (loc_request_id loc))]),
                    (''neon_should_respond'', PBool False),
                    (''username'', loc_nick loc),
                    (''nick_profiles'', loc_nick_profiles loc),
                    (''cc_data'', PDict [(''speak_execute'', PNone),
                                         (''raw_utterance'', PNone)]),
                    (''timing'', PDict [(''start'', dict_get (msg_data m) ''time''),
                                        (''transcribed'', time_time env tr1)]),
                    (''ident'', loc_ident loc)]) 10")
       (simp_all add: handle_input_from_klat_def klat_publish_def Let_def
          emit_utterance_to_skills_def dict_item_def Message_def outbound_def)
qed

text \<open>An engine that hears nothing in the audio of a klat request; and a klat request
  with neither audio nor text.\<close>

theorem klat_transcript_guard_witness:
  "handle_input_from_klat silent_env klat_audio_request [] =
     Some (Inr (),
       klat_sample_trace (PStr ''sample.wav'') @
         [FromFile (PStr ''sample.wav''), Transcribe sample_audio (PStr ''en''),
          GetContext sample_audio, Log WARNING [LStr ''Null Transcription!'']])
   \<and> (\<exists>ctx evs.
         handle_input_from_klat sample_env klat_empty_request [] =
           Some (Inr (),
             klat_sample_trace PNone @
               [Clock, Log DEBUG [LStr ''Send server request to skills for processing''],
                WaitForResponse
                  (Message ''recognizer_loop:utterance''
                     [(''utterances'', PList [PNone]), (''lang'', PStr ''en'')] ctx) 10] @ evs)
         \<and> outbound evs = [])"
proof -
  have e: "\<not> truthy (dict_get (msg_data klat_empty_request) ''raw_audio'')
           \<and> \<not> truthy (dict_get (msg_data klat_empty_request) ''need_transcription'')
           \<and> dict_get (msg_data klat_empty_request) ''shout_text'' = PNone"
    by (simp add: klat_empty_request_def dict_get_def)
  have n: "\<not> truthy (PList [])" by simp
  show ?thesis
    using klat_transcript_guard [OF klat_request_silent,
        of "PDict [(''confidence'', PNum 1)]" "PList []"
           "klat_sample_trace (PStr ''sample.wav'') @
             [FromFile (PStr ''sample.wav''), Transcribe sample_audio (PStr ''en''),
              GetContext sample_audio]"]
      klat_transcript_guard [OF klat_request_empty] klat_transcriptions_silent e n
    by (simp add: klat_sample_locals_def)
qed

text \<open>
  Claim C10 as stated says that \<^verbatim>\<open>[None]\<close> is published whenever neither audio nor
  text is given. With \<^verbatim>\<open>need_transcription\<close> set, such a request ends at line 265:
  an error is logged and the handler returns before the list is built, publishing
  nothing.
\<close>

theorem klat_need_transcription_without_audio:
  "dict_get (msg_data klat_untranscribable_request) ''raw_audio'' = PNone
   \<and> dict_get (msg_data klat_untranscribable_request) ''shout_text'' = PNone
   \<and> handle_input_from_klat sample_env klat_untranscribable_request [] =
       Some (Inr (),
         klat_sample_trace PNone @
           [Log ERROR [LStr ''Need transcription but no audio passed! '',
                       LMsg klat_untranscribable_request]])"
  by (simp add: handle_input_from_klat_def klat_request_def klat_transcriptions_def
      sample_env_def klat_untranscribable_request_def klat_sample_trace_def dict_get_def
      py_item_def dict_item_def py_get_default_def dict_get_default_def format_str_def Let_def)

end
